theory Spec2Isabelle
  imports Main "HOL-Library.Word"
begin

unbundle bit_operations_syntax

section \<open>Exceptions\<close>

text \<open>
  The error codes of \<^verbatim>\<open>namespace ErrorCodes\<close> that ExpressionActions.cpp raises, the two
  codes raised by the Block it calls, and one code that is not an exception of the source:
  \<open>INVALID_MEMORY_ACCESS\<close> stands for the places where the C++ has undefined behaviour
  (a null or dangling pointer is dereferenced, a vector is read outside its bounds), so
  that these places are branches of the model and not unspecified values.
  An exception carries its code and its message.
\<close>

datatype error_code =
    LOGICAL_ERROR
  | DUPLICATE_COLUMN
  | UNKNOWN_IDENTIFIER
  | NOT_FOUND_COLUMN_IN_BLOCK
  | TOO_MANY_TEMPORARY_COLUMNS
  | TOO_MANY_TEMPORARY_NON_CONST_COLUMNS
  | TYPE_MISMATCH
  | POSITION_OUT_OF_BOUND
  | INVALID_MEMORY_ACCESS

datatype exception = Exception error_code string

fun code :: "exception \<Rightarrow> error_code" where
  "code (Exception c m) = c"

definition bind_result :: "exception + 'a \<Rightarrow> ('a \<Rightarrow> exception + 'b) \<Rightarrow> exception + 'b" where
  "bind_result r f = (case r of Inl e \<Rightarrow> Inl e | Inr x \<Rightarrow> f x)"

section \<open>Strings\<close>

text \<open>\<^verbatim>\<open>std::to_string\<close> of an unsigned number: its decimal digits.\<close>

definition digit_char :: "nat \<Rightarrow> char" where
  "digit_char d = char_of (48 + d)"

function to_string :: "nat \<Rightarrow> string" where
  "to_string n = (if n < 10 then [digit_char n] else to_string (n div 10) @ [digit_char (n mod 10)])"
  by pat_completeness auto
termination
  by (relation "measure id") auto

declare to_string.simps [simp del]

text \<open>Names written one after the other, separated by \<open>sep\<close>.\<close>

fun join_names :: "string \<Rightarrow> string list \<Rightarrow> string" where
  "join_names sep [] = []"
| "join_names sep [x] = x"
| "join_names sep (x # y # ys) = x @ sep @ join_names sep (y # ys)"

section \<open>Data types and columns\<close>

text \<open>
  Modelled from the spec: the type system (DataTypes/ is not among the sources). A value
  type has a name, deep equality (HOL equality here) and, for an array type, its nested
  type. \<open>DataType n\<close> is any type that is not an array, identified by its name. Types
  that are equal have the same name.
\<close>

datatype data_type = DataType string | DataTypeArray data_type

fun type_getName :: "data_type \<Rightarrow> string" where
  "type_getName (DataType n) = n"
| "type_getName (DataTypeArray t) = ''Array('' @ type_getName t @ '')''"

text \<open>
  Modelled from the spec: the column primitives (Columns/ is not among the sources):
  immutable columnar value arrays supporting \<open>size\<close>, \<open>cloneResized(n)\<close>,
  \<open>replicate(offsets)\<close>, \<open>convertToFullColumnIfConst\<close> and a constant-column predicate.
  A full column holds one value per row, an array column holds one list of elements per
  row (its flat element column is their concatenation and its offsets are the cumulative
  lengths), a constant column holds one value and a row count, and a set column carries a
  set of the IN operator, of which only \<open>isCreated\<close> and \<open>getTotalRowCount\<close> are observed.
\<close>

datatype Field = Int64 int | String string | Array "Field list"

record Set =
  isCreated :: bool
  getTotalRowCount :: nat

datatype column =
    ColumnVector "Field list"
  | ColumnArray "Field list list"
  | ColumnConst Field nat
  | ColumnSet nat Set

fun size_column :: "column \<Rightarrow> nat" where
  "size_column (ColumnVector xs) = length xs"
| "size_column (ColumnArray rows) = length rows"
| "size_column (ColumnConst v n) = n"
| "size_column (ColumnSet n s) = n"

fun isColumnConst :: "column \<Rightarrow> bool" where
  "isColumnConst (ColumnConst v n) = True"
| "isColumnConst c = False"

definition empty_column :: "column \<Rightarrow> bool" where
  "empty_column c = (size_column c = 0)"

text \<open>The value a full column is padded with when it grows: the default of its rows' kind.\<close>

fun default_like :: "Field list \<Rightarrow> Field" where
  "default_like (String s # xs) = String []"
| "default_like (Array a # xs) = Array []"
| "default_like xs = Int64 0"

fun cloneResized :: "column \<Rightarrow> nat \<Rightarrow> column" where
  "cloneResized (ColumnVector xs) n = ColumnVector (take n xs @ replicate (n - length xs) (default_like xs))"
| "cloneResized (ColumnArray rows) n = ColumnArray (take n rows @ replicate (n - length rows) [])"
| "cloneResized (ColumnConst v s) n = ColumnConst v n"
| "cloneResized (ColumnSet s d) n = ColumnSet n d"

text \<open>
  Offsets are cumulative: row \<open>i\<close> is repeated \<open>offsets[i] - offsets[i - 1]\<close> times, and the
  last offset is the length of the result.
\<close>

fun offsets_counts :: "nat \<Rightarrow> nat list \<Rightarrow> nat list" where
  "offsets_counts prev [] = []"
| "offsets_counts prev (off # offs) = (off - prev) # offsets_counts off offs"

fun replicate_rows :: "nat list \<Rightarrow> 'a list \<Rightarrow> 'a list" where
  "replicate_rows (k # ks) (x # xs) = replicate k x @ replicate_rows ks xs"
| "replicate_rows ks xs = []"

definition offsets_back :: "nat list \<Rightarrow> nat" where
  "offsets_back offsets = (if offsets = [] then 0 else last offsets)"

fun replicate_column :: "column \<Rightarrow> nat list \<Rightarrow> column" where
  "replicate_column (ColumnVector xs) offsets = ColumnVector (replicate_rows (offsets_counts 0 offsets) xs)"
| "replicate_column (ColumnArray rows) offsets = ColumnArray (replicate_rows (offsets_counts 0 offsets) rows)"
| "replicate_column (ColumnConst v s) offsets = ColumnConst v (offsets_back offsets)"
| "replicate_column (ColumnSet s d) offsets = ColumnSet (offsets_back offsets) d"

fun convertToFullColumnIfConst :: "column \<Rightarrow> column" where
  "convertToFullColumnIfConst (ColumnConst (Array a) n) = ColumnArray (replicate n a)"
| "convertToFullColumnIfConst (ColumnConst v n) = ColumnVector (replicate n v)"
| "convertToFullColumnIfConst c = c"

text \<open>\<^verbatim>\<open>ColumnArray::getOffsets\<close> and \<^verbatim>\<open>ColumnArray::getDataPtr\<close>.\<close>

fun cumulative :: "nat \<Rightarrow> nat list \<Rightarrow> nat list" where
  "cumulative acc [] = []"
| "cumulative acc (k # ks) = (acc + k) # cumulative (acc + k) ks"

definition getOffsets :: "Field list list \<Rightarrow> nat list" where
  "getOffsets rows = cumulative 0 (map length rows)"

definition getDataPtr :: "Field list list \<Rightarrow> column" where
  "getDataPtr rows = ColumnVector (concat rows)"

text \<open>\<^verbatim>\<open>IColumn::getName\<close>: the name of the column's class.\<close>

fun column_getName :: "column \<Rightarrow> string" where
  "column_getName (ColumnVector xs) = ''Vector''"
| "column_getName (ColumnArray rows) = ''Array''"
| "column_getName (ColumnConst v n) = ''Const''"
| "column_getName (ColumnSet n s) = ''Set''"

section \<open>Columns with type and name, blocks\<close>

text \<open>
  A \<^verbatim>\<open>ColumnWithTypeAndName\<close>: the column and the type are pointers that may be null.
  Moving out of one (\<^verbatim>\<open>std::move\<close>) leaves it with null pointers and an empty name.
\<close>

record ColumnWithTypeAndName =
  column :: "column option"
  type :: "data_type option"
  name :: string

definition empty_cwt :: ColumnWithTypeAndName where
  "empty_cwt = \<lparr>column = None, type = None, name = []\<rparr>"

type_synonym ColumnsWithTypeAndName = "ColumnWithTypeAndName list"

text \<open>
  Modelled from the spec: the Block (Core/Block.h is not among the sources): an ordered
  list of columns with type and name, addressable by position and by name. The name index
  is kept beside the list, as the Block does: \<open>insert\<close> records the position of a name
  that is not yet indexed, \<open>erase\<close> drops the position and shifts the later ones.
\<close>

record Block =
  data :: ColumnsWithTypeAndName
  index_by_name :: "string \<rightharpoonup> nat"

definition empty_Block :: Block where
  "empty_Block = \<lparr>data = [], index_by_name = Map.empty\<rparr>"

definition has :: "Block \<Rightarrow> string \<Rightarrow> bool" where
  "has block n = (index_by_name block n \<noteq> None)"

definition getPositionByName :: "Block \<Rightarrow> string \<Rightarrow> exception + nat" where
  "getPositionByName block n =
     (case index_by_name block n of
        None \<Rightarrow> Inl (Exception NOT_FOUND_COLUMN_IN_BLOCK (''Not found column '' @ n @ '' in block''))
      | Some pos \<Rightarrow> Inr pos)"

definition insert_block :: "Block \<Rightarrow> ColumnWithTypeAndName \<Rightarrow> Block" where
  "insert_block block elem =
     \<lparr>data = data block @ [elem],
      index_by_name = (if has block (name elem) then index_by_name block
                       else (index_by_name block)(name elem \<mapsto> length (data block)))\<rparr>"

definition erase_index :: "(string \<rightharpoonup> nat) \<Rightarrow> nat \<Rightarrow> (string \<rightharpoonup> nat)" where
  "erase_index idx position =
     (\<lambda>n. case idx n of
             None \<Rightarrow> None
           | Some p \<Rightarrow> if p = position then None else if p > position then Some (p - 1) else Some p)"

definition erase :: "Block \<Rightarrow> nat \<Rightarrow> exception + Block" where
  "erase block position =
     (if data block = [] then Inl (Exception POSITION_OUT_OF_BOUND ''Block is empty'')
      else if position \<ge> length (data block)
      then Inl (Exception POSITION_OUT_OF_BOUND (''Position out of bound in Block::erase()''))
      else Inr \<lparr>data = take position (data block) @ drop (Suc position) (data block),
                index_by_name = erase_index (index_by_name block) position\<rparr>)"

fun rows_of :: "ColumnsWithTypeAndName \<Rightarrow> nat" where
  "rows_of [] = 0"
| "rows_of (elem # elems) = (case column elem of Some c \<Rightarrow> size_column c | None \<Rightarrow> rows_of elems)"

definition rows :: "Block \<Rightarrow> nat" where
  "rows block = rows_of (data block)"

text \<open>The schema of a block: the names and types of its columns, in order.\<close>

definition getNamesAndTypesList :: "Block \<Rightarrow> (string \<times> data_type option) list" where
  "getNamesAndTypesList block = map (\<lambda>elem. (name elem, type elem)) (data block)"

section \<open>Functions\<close>

text \<open>
  Modelled from the spec: the function registry (Functions/IFunction.h is not among the
  sources), as the capability set the spec names. An executable function is its
  \<open>execute(arguments, result_type, num_rows, dry_run)\<close>, which returns a column or
  throws. A function base is the resolved overload with its metadata; an overload
  resolver has a name and \<open>build\<close>, which rejects the argument types by throwing.
  The theorems below hold for every function; the example functions are instances.
\<close>

type_synonym ExecutableFunction =
  "ColumnsWithTypeAndName \<Rightarrow> data_type option \<Rightarrow> nat \<Rightarrow> bool \<Rightarrow> exception + column"

record FunctionBase =
  getName :: string
  getArgumentTypes :: "data_type list"
  getResultType :: "data_type option"
  isSuitableForConstantFolding :: bool
  isDeterministic :: bool
  getResultIfAlwaysReturnsConstantAndHasArguments :: "ColumnsWithTypeAndName \<Rightarrow> column option"
  prepare :: "ColumnsWithTypeAndName \<Rightarrow> ExecutableFunction"

record FunctionOverloadResolver =
  resolver_getName :: string
  build :: "ColumnsWithTypeAndName \<Rightarrow> exception + FunctionBase"

text \<open>
  The settings \<^verbatim>\<open>addFunction\<close> reads from the context. \<open>USE_EMBEDDED_COMPILER\<close> is the
  build flag of the same name: without it \<open>compile_expressions\<close> is not read.
\<close>

record Context =
  settings_max_temporary_columns :: nat
  settings_max_temporary_non_const_columns :: nat
  settings_compile_expressions :: bool
  USE_EMBEDDED_COMPILER :: bool

section \<open>Expression actions: equality and hash\<close>

text \<open>
  Modelled from the spec: SipHash (Common/SipHash.h is not among the sources), the
  non-cryptographic 128-bit hash that \<^verbatim>\<open>ActionHash\<close> feeds. The model is SipHash-2-4 with
  a zero key over the bytes of the updates in their order: eight bytes make a
  little-endian word, the last word carries the byte count in its top byte, and the
  128-bit result is the pair \<open>(v0 XOR v1, v2 XOR v3)\<close>.
\<close>

record SipHash =
  v0 :: "64 word"
  v1 :: "64 word"
  v2 :: "64 word"
  v3 :: "64 word"
  cnt :: nat
  current_word :: "64 word"

definition ROTL :: "64 word \<Rightarrow> nat \<Rightarrow> 64 word" where
  "ROTL x b = (push_bit b x) OR (drop_bit (64 - b) x)"

definition SIPROUND :: "SipHash \<Rightarrow> SipHash" where
  "SIPROUND h =
     (let a0 = v0 h + v1 h; a1 = ROTL (v1 h) 13; a1 = a1 XOR a0; a0 = ROTL a0 32;
          a2 = v2 h + v3 h; a3 = ROTL (v3 h) 16; a3 = a3 XOR a2;
          a0 = a0 + a3; a3 = ROTL a3 21; a3 = a3 XOR a0;
          a2 = a2 + a1; a1 = ROTL a1 17; a1 = a1 XOR a2; a2 = ROTL a2 32
      in h\<lparr>v0 := a0, v1 := a1, v2 := a2, v3 := a3\<rparr>)"

definition new_SipHash :: SipHash where
  "new_SipHash = \<lparr>v0 = 0x736f6d6570736575, v1 = 0x646f72616e646f6d, v2 = 0x6c7967656e657261,
     v3 = 0x7465646279746573, cnt = 0, current_word = 0\<rparr>"

definition process_word :: "64 word \<Rightarrow> SipHash \<Rightarrow> SipHash" where
  "process_word w h =
     (let h1 = SIPROUND (SIPROUND (h\<lparr>v3 := v3 h XOR w\<rparr>)) in h1\<lparr>v0 := v0 h1 XOR w\<rparr>)"

definition update_byte :: "8 word \<Rightarrow> SipHash \<Rightarrow> SipHash" where
  "update_byte b h =
     (let w = current_word h OR push_bit (8 * (cnt h mod 8)) (ucast b);
          h1 = h\<lparr>cnt := Suc (cnt h)\<rparr>
      in if Suc (cnt h) mod 8 = 0 then (process_word w h1)\<lparr>current_word := 0\<rparr>
         else h1\<lparr>current_word := w\<rparr>)"

definition update_bytes :: "8 word list \<Rightarrow> SipHash \<Rightarrow> SipHash" where
  "update_bytes bs h = fold update_byte bs h"

text \<open>The updates of a string (its bytes), of a \<^verbatim>\<open>bool\<close> (one byte) and of an enum (four bytes).\<close>

definition update_string :: "string \<Rightarrow> SipHash \<Rightarrow> SipHash" where
  "update_string str h = update_bytes (map of_char str) h"

definition update_bool :: "bool \<Rightarrow> SipHash \<Rightarrow> SipHash" where
  "update_bool b h = update_bytes [if b then 1 else 0] h"

definition update_enum :: "nat \<Rightarrow> SipHash \<Rightarrow> SipHash" where
  "update_enum v h = update_bytes [of_nat v, 0, 0, 0] h"

definition finalize :: "SipHash \<Rightarrow> SipHash" where
  "finalize h =
     (let w = (current_word h AND 0x00FFFFFFFFFFFFFF) OR push_bit 56 (of_nat (cnt h mod 256));
          h1 = process_word w h;
          h2 = h1\<lparr>v2 := v2 h1 XOR 0xff\<rparr>
      in SIPROUND (SIPROUND (SIPROUND (SIPROUND h2))))"

definition get128 :: "SipHash \<Rightarrow> 64 word \<times> 64 word" where
  "get128 h = (let f = finalize h in (v0 f XOR v1 f, v2 f XOR v3 f))"

text \<open>
  Modelled from the spec: the join descriptor (Interpreters/TableJoin.h is not among the
  sources). \<^verbatim>\<open>sameJoin\<close> is structural equality of the descriptors; two null pointers are
  the same join.
\<close>

datatype TableJoin = TableJoin string

definition sameJoin :: "TableJoin option \<Rightarrow> TableJoin option \<Rightarrow> bool" where
  "sameJoin x y = (case (x, y) of (None, None) \<Rightarrow> True | (Some j, Some k) \<Rightarrow> j = k | _ \<Rightarrow> False)"

text \<open>
  The \<^verbatim>\<open>ExpressionAction\<close> that \<^verbatim>\<open>ActionHash\<close> and \<^verbatim>\<open>operator==\<close> are about, with the
  members the two functions read. Its declaration is not among the sources; the types of
  an action are the cases of the \<^verbatim>\<open>switch\<close> in \<^verbatim>\<open>ActionHash\<close>, numbered in that order.
\<close>

datatype ActionType =
  ADD_COLUMN | REMOVE_COLUMN | COPY_COLUMN | APPLY_FUNCTION | ARRAY_JOIN | PROJECT | ADD_ALIASES

fun ActionType_value :: "ActionType \<Rightarrow> nat" where
  "ActionType_value ADD_COLUMN = 0"
| "ActionType_value REMOVE_COLUMN = 1"
| "ActionType_value COPY_COLUMN = 2"
| "ActionType_value APPLY_FUNCTION = 3"
| "ActionType_value ARRAY_JOIN = 4"
| "ActionType_value PROJECT = 5"
| "ActionType_value ADD_ALIASES = 6"

record ExpressionAction =
  type :: ActionType
  source_name :: string
  result_name :: string
  result_type :: "data_type option"
  added_column :: "column option"
  function_base :: "FunctionBase option"
  argument_names :: "string list"
  is_function_compiled :: bool
  table_join :: "TableJoin option"
  projection :: "(string \<times> string) list"

definition update_type_name :: "data_type option \<Rightarrow> SipHash \<Rightarrow> SipHash" where
  "update_type_name t h = (case t of None \<Rightarrow> h | Some ty \<Rightarrow> update_string (type_getName ty) h)"

definition ActionHash :: "ExpressionAction \<Rightarrow> 64 word \<times> 64 word" where
  "ActionHash action =
     (let h = update_bool (is_function_compiled action)
                (update_enum (ActionType_value (type action)) new_SipHash)
      in get128
        (case type action of
           ADD_COLUMN \<Rightarrow>
             (let h1 = update_type_name (result_type action) (update_string (result_name action) h)
              in case added_column action of None \<Rightarrow> h1 | Some c \<Rightarrow> update_string (column_getName c) h1)
         | REMOVE_COLUMN \<Rightarrow> update_string (source_name action) h
         | COPY_COLUMN \<Rightarrow> update_string (source_name action) (update_string (result_name action) h)
         | APPLY_FUNCTION \<Rightarrow>
             (let h1 = update_type_name (result_type action) (update_string (result_name action) h);
                  h2 = (case function_base action of
                          None \<Rightarrow> h1
                        | Some base \<Rightarrow>
                            fold (\<lambda>arg_type. update_string (type_getName arg_type)) (getArgumentTypes base)
                              (update_string (getName base) h1))
              in fold update_string (argument_names action) h2)
         | ARRAY_JOIN \<Rightarrow> update_string (source_name action) (update_string (result_name action) h)
         | PROJECT \<Rightarrow>
             fold (\<lambda>pair_of_strs h'. update_string (snd pair_of_strs) (update_string (fst pair_of_strs) h'))
               (projection action) h
         | ADD_ALIASES \<Rightarrow> h))"

text \<open>
  \<^verbatim>\<open>operator==\<close>. Two pointers that are equal point to one object, which equals itself;
  otherwise both must be non-null and their objects are compared.
\<close>

definition same_result_type :: "data_type option \<Rightarrow> data_type option \<Rightarrow> bool" where
  "same_result_type x y = (case (x, y) of (None, None) \<Rightarrow> True | (Some t, Some u) \<Rightarrow> t = u | _ \<Rightarrow> False)"

definition same_function_base :: "FunctionBase option \<Rightarrow> FunctionBase option \<Rightarrow> bool" where
  "same_function_base x y =
     (case (x, y) of
        (None, None) \<Rightarrow> True
      | (Some f, Some g) \<Rightarrow>
          getName f = getName g \<and> length (getArgumentTypes f) = length (getArgumentTypes g) \<and>
          list_all2 (=) (getArgumentTypes f) (getArgumentTypes g)
      | _ \<Rightarrow> False)"

definition same_added_column :: "column option \<Rightarrow> column option \<Rightarrow> bool" where
  "same_added_column x y =
     (case (x, y) of
        (None, None) \<Rightarrow> True
      | (Some c, Some d) \<Rightarrow> column_getName c = column_getName d
      | _ \<Rightarrow> False)"

definition ExpressionAction_equals :: "ExpressionAction \<Rightarrow> ExpressionAction \<Rightarrow> bool" where
  "ExpressionAction_equals a other =
     (if \<not> same_result_type (result_type a) (result_type other) then False
      else if \<not> same_function_base (function_base a) (function_base other) then False
      else if \<not> same_added_column (added_column a) (added_column other) then False
      else source_name a = source_name other
         \<and> result_name a = result_name other
         \<and> argument_names a = argument_names other
         \<and> sameJoin (table_join a) (table_join other)
         \<and> projection a = projection other
         \<and> is_function_compiled a = is_function_compiled other)"

section \<open>The actions DAG\<close>

text \<open>
  The declarations of ExpressionActions.h are not among the sources: the records below
  have the members that ExpressionActions.cpp reads and writes, with their names.

  Nodes live in a \<^verbatim>\<open>std::list<Node>\<close> and refer to each other by pointer. A pointer is an
  address; the list is modelled with the address of each element beside it. A new
  element gets an address that no element of the list has. Counters and sizes
  (\<^verbatim>\<open>size_t\<close>, \<^verbatim>\<open>UInt64\<close> settings) are natural numbers: none of them is near its bound.
\<close>

type_synonym node_ptr = nat

datatype Type = INPUT | COLUMN | ALIAS | ARRAY_JOIN | FUNCTION

text \<open>The member \<^verbatim>\<open>function\<close> is \<open>executable_function\<close> here (\<open>function\<close> is a keyword).\<close>

record Node =
  children :: "node_ptr list"
  type :: Type
  result_name :: string
  result_type :: "data_type option"
  unique_column_name_for_array_join :: string
  function_builder :: "FunctionOverloadResolver option"
  function_base :: "FunctionBase option"
  executable_function :: "ExecutableFunction option"
  is_function_compiled :: bool
  column :: "column option"
  allow_constant_folding :: bool
  renaming_parent :: "node_ptr option"

text \<open>\<^verbatim>\<open>Node node;\<close>: the default member initialisers.\<close>

definition new_Node :: Node where
  "new_Node = \<lparr>children = [], type = INPUT, result_name = [], result_type = None,
     unique_column_name_for_array_join = [], function_builder = None, function_base = None,
     executable_function = None, is_function_compiled = False, column = None,
     allow_constant_folding = True, renaming_parent = None\<rparr>"

type_synonym Nodes = "(node_ptr \<times> Node) list"

definition node_at :: "Nodes \<Rightarrow> node_ptr \<Rightarrow> Node option" where
  "node_at ns p = map_of ns p"

definition new_ptr :: "Nodes \<Rightarrow> node_ptr" where
  "new_ptr ns = Suc (fold max (map fst ns) 0)"

text \<open>Assignment through a pointer: \<^verbatim>\<open>p->renaming_parent = q\<close>.\<close>

definition set_renaming_parent :: "Nodes \<Rightarrow> node_ptr \<Rightarrow> node_ptr option \<Rightarrow> Nodes" where
  "set_renaming_parent ns p q =
     map (\<lambda>(a, n). if a = p then (a, n\<lparr>renaming_parent := q\<rparr>) else (a, n)) ns"

record ActionsDAG =
  nodes :: Nodes
  index :: "string \<rightharpoonup> node_ptr"
  max_temporary_columns :: nat
  max_temporary_non_const_columns :: nat

definition empty_ActionsDAG :: ActionsDAG where
  "empty_ActionsDAG = \<lparr>nodes = [], index = Map.empty, max_temporary_columns = 0,
     max_temporary_non_const_columns = 0\<rparr>"

definition invalid_pointer :: exception where
  "invalid_pointer = Exception INVALID_MEMORY_ACCESS ''pointer does not refer to a node''"

definition addNode :: "ActionsDAG \<Rightarrow> Node \<Rightarrow> bool \<Rightarrow> exception + ActionsDAG \<times> node_ptr" where
  "addNode dag node can_replace =
     (let it = index dag (result_name node) in
      if it \<noteq> None \<and> \<not> can_replace
      then Inl (Exception DUPLICATE_COLUMN (''Column '' @ [CHR 0x27] @ result_name node @ [CHR 0x27] @ '' already exists''))
      else
        let res = new_ptr (nodes dag);
            nodes1 = nodes dag @ [(res, node)]
        in case it of
             None \<Rightarrow> Inr (dag\<lparr>nodes := nodes1, index := (index dag)(result_name node \<mapsto> res)\<rparr>, res)
           | Some old \<Rightarrow>
               (case node_at nodes1 old of
                  None \<Rightarrow> Inl invalid_pointer
                | Some displaced \<Rightarrow>
                    Inr (dag\<lparr>nodes := set_renaming_parent nodes1 old (Some res),
                             index := (index dag)(result_name node \<mapsto> res)\<rparr>, res)))"

definition getNode :: "ActionsDAG \<Rightarrow> string \<Rightarrow> exception + node_ptr \<times> Node" where
  "getNode dag n =
     (case index dag n of
        None \<Rightarrow> Inl (Exception UNKNOWN_IDENTIFIER (''Unknown identifier: '' @ [CHR 0x27] @ n @ [CHR 0x27]))
      | Some p \<Rightarrow> (case node_at (nodes dag) p of None \<Rightarrow> Inl invalid_pointer | Some node \<Rightarrow> Inr (p, node)))"

text \<open>\<^verbatim>\<open>addInput(std::string name, DataTypePtr type)\<close>\<close>

definition addInput :: "ActionsDAG \<Rightarrow> string \<Rightarrow> data_type option \<Rightarrow> exception + ActionsDAG \<times> node_ptr" where
  "addInput dag n t =
     addNode dag (new_Node\<lparr>type := INPUT, result_type := t, result_name := n\<rparr>) False"

text \<open>\<^verbatim>\<open>addInput(ColumnWithTypeAndName column)\<close>\<close>

definition addInputColumn :: "ActionsDAG \<Rightarrow> ColumnWithTypeAndName \<Rightarrow> exception + ActionsDAG \<times> node_ptr" where
  "addInputColumn dag c =
     addNode dag (new_Node\<lparr>type := INPUT, result_type := ColumnWithTypeAndName.type c,
                           result_name := name c, column := ColumnWithTypeAndName.column c\<rparr>) False"

definition addColumn :: "ActionsDAG \<Rightarrow> ColumnWithTypeAndName \<Rightarrow> exception + ActionsDAG \<times> node_ptr" where
  "addColumn dag c =
     (if ColumnWithTypeAndName.column c = None
      then Inl (Exception LOGICAL_ERROR (''Cannot add column '' @ name c @ '' because it is nullptr''))
      else addNode dag (new_Node\<lparr>type := COLUMN, result_type := ColumnWithTypeAndName.type c,
                                 result_name := name c, column := ColumnWithTypeAndName.column c\<rparr>) False)"

definition addAlias :: "ActionsDAG \<Rightarrow> string \<Rightarrow> string \<Rightarrow> bool \<Rightarrow> exception + ActionsDAG \<times> node_ptr" where
  "addAlias dag n alias can_replace =
     bind_result (getNode dag n) (\<lambda>(child_ptr, child).
       addNode dag (new_Node\<lparr>type := ALIAS, result_type := result_type child, result_name := alias,
                             column := column child,
                             allow_constant_folding := allow_constant_folding child,
                             children := [child_ptr]\<rparr>) can_replace)"

definition addArrayJoin :: "ActionsDAG \<Rightarrow> string \<Rightarrow> string \<Rightarrow> string \<Rightarrow> exception + ActionsDAG \<times> node_ptr" where
  "addArrayJoin dag src_name res_name unique_column_name =
     bind_result (getNode dag src_name) (\<lambda>(child_ptr, child).
       case result_type child of
         Some (DataTypeArray nested) \<Rightarrow>
           addNode dag (new_Node\<lparr>type := ARRAY_JOIN, result_type := Some nested, result_name := res_name,
                                 unique_column_name_for_array_join := unique_column_name,
                                 children := [child_ptr]\<rparr>) False
       | _ \<Rightarrow> Inl (Exception TYPE_MISMATCH ''ARRAY JOIN requires array argument''))"

text \<open>
  \<^verbatim>\<open>addFunction\<close>. The loop over the argument names looks each child up, in order, and
  stops at the first unknown name; what it accumulates (the children, the conjunction of
  their \<open>allow_constant_folding\<close>, the arguments, \<open>all_const\<close>) is computed from the
  children it found.
\<close>

fun getNodes :: "ActionsDAG \<Rightarrow> string list \<Rightarrow> exception + (node_ptr \<times> Node) list" where
  "getNodes dag [] = Inr []"
| "getNodes dag (n # ns) =
     bind_result (getNode dag n) (\<lambda>child. bind_result (getNodes dag ns) (\<lambda>rest. Inr (child # rest)))"

definition argument_of :: "Node \<Rightarrow> ColumnWithTypeAndName" where
  "argument_of child = \<lparr>ColumnWithTypeAndName.column = column child,
                         ColumnWithTypeAndName.type = result_type child, name = []\<rparr>"

definition argument_is_const :: "ColumnWithTypeAndName \<Rightarrow> bool" where
  "argument_is_const argument =
     (case ColumnWithTypeAndName.column argument of None \<Rightarrow> False | Some c \<Rightarrow> isColumnConst c)"

text \<open>\<^verbatim>\<open>arguments.empty() ? 0 : arguments.front().column->size()\<close>\<close>

definition constant_folding_num_rows :: "ColumnsWithTypeAndName \<Rightarrow> exception + nat" where
  "constant_folding_num_rows arguments =
     (case arguments of
        [] \<Rightarrow> Inr 0
      | front # rest \<Rightarrow>
          (case ColumnWithTypeAndName.column front of
             None \<Rightarrow> Inl (Exception INVALID_MEMORY_ACCESS ''column is nullptr'')
           | Some c \<Rightarrow> Inr (size_column c)))"

text \<open>The first \<open>if\<close> of \<^verbatim>\<open>addFunction\<close>: constant folding. It gives the node's column.\<close>

definition fold_constants ::
  "bool \<Rightarrow> bool \<Rightarrow> FunctionBase \<Rightarrow> ExecutableFunction \<Rightarrow> ColumnsWithTypeAndName \<Rightarrow> exception + column option" where
  "fold_constants all_const do_compile_expressions base f arguments =
     (if all_const \<and> isSuitableForConstantFolding base \<and> (\<not> do_compile_expressions \<or> isDeterministic base)
      then
        bind_result (constant_folding_num_rows arguments) (\<lambda>num_rows.
        bind_result (f arguments (getResultType base) num_rows True) (\<lambda>col.
          if isColumnConst col
          then Inr (Some (if empty_column col then cloneResized col 1 else col))
          else Inr None))
      else Inr None)"

definition function_result_name :: "string \<Rightarrow> string list \<Rightarrow> string" where
  "function_result_name fname arg_names = fname @ ''('' @ join_names '', '' arg_names @ '')''"

definition addFunction ::
  "ActionsDAG \<Rightarrow> FunctionOverloadResolver \<Rightarrow> string list \<Rightarrow> string \<Rightarrow> Context
     \<Rightarrow> exception + ActionsDAG \<times> node_ptr" where
  "addFunction dag0 resolver arg_names res_name context =
     (let dag = dag0\<lparr>max_temporary_columns := settings_max_temporary_columns context,
                     max_temporary_non_const_columns := settings_max_temporary_non_const_columns context\<rparr>;
          do_compile_expressions = (USE_EMBEDDED_COMPILER context \<and> settings_compile_expressions context)
      in
      bind_result (getNodes dag arg_names) (\<lambda>found.
        let node_children = map fst found;
            allow = list_all (\<lambda>(p, child). allow_constant_folding child) found;
            arguments = map (\<lambda>(p, child). argument_of child) found;
            all_const = list_all argument_is_const arguments
        in
        bind_result (build resolver arguments) (\<lambda>base.
          let f = prepare base arguments in
          bind_result (fold_constants all_const do_compile_expressions base f arguments) (\<lambda>folded.
            let always_constant =
                  (if folded = None \<and> isSuitableForConstantFolding base
                   then getResultIfAlwaysReturnsConstantAndHasArguments base arguments else None);
                node = new_Node\<lparr>type := FUNCTION,
                         function_builder := Some resolver,
                         children := node_children,
                         function_base := Some base,
                         result_type := getResultType base,
                         executable_function := Some f,
                         column := (if always_constant \<noteq> None then always_constant else folded),
                         allow_constant_folding := (if always_constant \<noteq> None then False else allow),
                         result_name := (if res_name = []
                                         then function_result_name (resolver_getName resolver) arg_names
                                         else res_name)\<rparr>
            in addNode dag node False))))"

text \<open>The constructors: every input is added in turn.\<close>

fun ActionsDAG_of_inputs :: "ActionsDAG \<Rightarrow> (string \<times> data_type option) list \<Rightarrow> exception + ActionsDAG" where
  "ActionsDAG_of_inputs dag [] = Inr dag"
| "ActionsDAG_of_inputs dag ((n, t) # inputs) =
     bind_result (addInput dag n t) (\<lambda>(dag', p). ActionsDAG_of_inputs dag' inputs)"

definition dumpNames :: "ActionsDAG \<Rightarrow> string" where
  "dumpNames dag = join_names '', '' (map (\<lambda>(p, node). result_name node) (nodes dag))"

subsection \<open>removeUnusedActions\<close>

text \<open>
  The first loop: every required name is looked up in the index, entered in the new
  index, marked visited and pushed on the stack (the head of the list is its top).
\<close>

fun required_nodes ::
  "ActionsDAG \<Rightarrow> string list \<Rightarrow> (string \<rightharpoonup> node_ptr) \<Rightarrow> node_ptr set \<Rightarrow> node_ptr list
     \<Rightarrow> exception + (string \<rightharpoonup> node_ptr) \<times> node_ptr set \<times> node_ptr list" where
  "required_nodes dag [] new_index visited_nodes stack = Inr (new_index, visited_nodes, stack)"
| "required_nodes dag (n # required_names) new_index visited_nodes stack =
     (case index dag n of
        None \<Rightarrow> Inl (Exception UNKNOWN_IDENTIFIER
                  (''Unknown column: '' @ n @ '', there are only columns '' @ dumpNames dag))
      | Some node \<Rightarrow>
          required_nodes dag required_names (new_index(n \<mapsto> node)) (insert node visited_nodes) (node # stack))"

fun visit_children :: "node_ptr list \<Rightarrow> node_ptr set \<Rightarrow> node_ptr list \<Rightarrow> node_ptr set \<times> node_ptr list" where
  "visit_children [] visited_nodes stack = (visited_nodes, stack)"
| "visit_children (child # rest) visited_nodes stack =
     (if child \<notin> visited_nodes
      then visit_children rest (insert child visited_nodes) (child # stack)
      else visit_children rest visited_nodes stack)"

text \<open>Every address that occurs in the node list, as an element or as a child.\<close>

definition all_ptrs :: "Nodes \<Rightarrow> node_ptr set" where
  "all_ptrs ns = fst ` set ns \<union> (\<Union>(p, node) \<in> set ns. set (children node))"

lemma visit_children_visited:
  "fst (visit_children cs v s) = v \<union> set cs"
  by (induction cs arbitrary: v s) auto

lemma visit_children_stack:
  "fst (visit_children cs v s) = v \<Longrightarrow> snd (visit_children cs v s) = s"
proof (induction cs arbitrary: v s)
  case Nil
  then show ?case by simp
next
  case (Cons c cs)
  show ?case
  proof (cases "c \<in> v")
    case True
    with Cons show ?thesis by simp
  next
    case False
    have "c \<in> fst (visit_children (c # cs) v s)"
      by (simp add: visit_children_visited)
    with Cons.prems False show ?thesis by simp
  qed
qed

lemma node_at_children_all_ptrs:
  "node_at ns p = Some node \<Longrightarrow> set (children node) \<subseteq> all_ptrs ns"
  unfolding node_at_def all_ptrs_def by (auto dest: map_of_SomeD)

text \<open>The while loop over the stack.\<close>

function visit_nodes :: "Nodes \<Rightarrow> node_ptr set \<Rightarrow> node_ptr list \<Rightarrow> exception + node_ptr set" where
  "visit_nodes ns visited_nodes [] = Inr visited_nodes"
| "visit_nodes ns visited_nodes (node # stack) =
     (case node_at ns node of
        None \<Rightarrow> Inl invalid_pointer
      | Some n \<Rightarrow>
          visit_nodes ns (fst (visit_children (children n) visited_nodes stack))
                         (snd (visit_children (children n) visited_nodes stack)))"
  by pat_completeness auto
termination
proof (relation "inv_image (less_than <*lex*> less_than)
                   (\<lambda>(ns, v, s). (card (all_ptrs ns - v), length s))")
  show "wf (inv_image (less_than <*lex*> less_than)
              (\<lambda>(ns, v, s). (card (all_ptrs ns - v), length s)))"
    by (intro wf_inv_image wf_lex_prod wf_less_than)
next
  fix ns :: Nodes and visited_nodes :: "node_ptr set" and node :: node_ptr
    and stack :: "node_ptr list" and n :: Node
  assume at: "node_at ns node = Some n"
  let ?v = "fst (visit_children (children n) visited_nodes stack)"
  let ?s = "snd (visit_children (children n) visited_nodes stack)"
  have fin: "finite (all_ptrs ns)"
    unfolding all_ptrs_def by auto
  have v: "?v = visited_nodes \<union> set (children n)"
    by (rule visit_children_visited)
  have sub: "all_ptrs ns - ?v \<subseteq> all_ptrs ns - visited_nodes"
    using v by auto
  show "((ns, ?v, ?s), (ns, visited_nodes, node # stack))
          \<in> inv_image (less_than <*lex*> less_than) (\<lambda>(ns, v, s). (card (all_ptrs ns - v), length s))"
  proof (cases "?v = visited_nodes")
    case True
    then have "?s = stack" by (rule visit_children_stack)
    with True show ?thesis by (simp add: case_prod_beta)
  next
    case False
    then obtain c where c: "c \<in> set (children n)" "c \<notin> visited_nodes"
      using v by auto
    with at have "c \<in> all_ptrs ns - visited_nodes"
      using node_at_children_all_ptrs by blast
    moreover have "c \<notin> all_ptrs ns - ?v" using c v by simp
    ultimately have "all_ptrs ns - ?v \<subset> all_ptrs ns - visited_nodes"
      using sub by blast
    then have "card (all_ptrs ns - ?v) < card (all_ptrs ns - visited_nodes)"
      using fin by (simp add: psubset_card_mono)
    then show ?thesis by (simp add: case_prod_beta)
  qed
qed

text \<open>
  \<^verbatim>\<open>nodes.remove_if\<close> keeps the visited nodes; the last loop clears the renaming parent
  of a node when that parent was not visited.
\<close>

definition clear_renaming_parent :: "node_ptr set \<Rightarrow> Node \<Rightarrow> Node" where
  "clear_renaming_parent visited_nodes node =
     (case renaming_parent node of
        None \<Rightarrow> node
      | Some parent \<Rightarrow> if parent \<notin> visited_nodes then node\<lparr>renaming_parent := None\<rparr> else node)"

definition removeUnusedActions :: "ActionsDAG \<Rightarrow> string list \<Rightarrow> exception + ActionsDAG" where
  "removeUnusedActions dag required_names =
     bind_result (required_nodes dag required_names Map.empty {} []) (\<lambda>(new_index, visited0, stack).
     bind_result (visit_nodes (nodes dag) visited0 stack) (\<lambda>visited_nodes.
       Inr (dag\<lparr>index := new_index,
                nodes := map (\<lambda>(p, node). (p, clear_renaming_parent visited_nodes node))
                           (filter (\<lambda>(p, node). p \<in> visited_nodes) (nodes dag))\<rparr>)))"

section \<open>The linearized program\<close>

record Argument =
  pos :: nat
  remove :: bool

record Action =
  node :: node_ptr
  arguments :: "Argument list"
  result_position :: nat
  is_used_in_result :: bool

text \<open>
  Modelled from the spec: the settings object of the program (Core/Settings.h is not among
  the sources). Of its fields \<^verbatim>\<open>checkLimits\<close> reads one; a default-constructed settings
  object has no limit (zero).
\<close>

record Settings =
  max_temporary_non_const_columns :: nat

definition default_Settings :: Settings where
  "default_Settings = \<lparr>max_temporary_non_const_columns = 0\<rparr>"

record ExpressionActions =
  nodes :: Nodes
  actions :: "Action list"
  num_columns :: nat
  required_columns :: "(string \<times> data_type option) list"
  sample_block :: Block
  project_input :: bool
  max_temporary_non_const_columns :: nat
  settings :: Settings

text \<open>\<^verbatim>\<open>std::make_shared<ExpressionActions>()\<close>\<close>

definition new_ExpressionActions :: ExpressionActions where
  "new_ExpressionActions = \<lparr>nodes = [], actions = [], num_columns = 0, required_columns = [],
     sample_block = empty_Block, project_input = False, max_temporary_non_const_columns = 0,
     settings = default_Settings\<rparr>"

section \<open>buildExpressions\<close>

text \<open>The local \<^verbatim>\<open>struct Data\<close>; \<open>position\<close> is the signed \<^verbatim>\<open>ssize_t\<close>, initially \<open>-1\<close>.\<close>

record Data =
  node :: "node_ptr option"
  num_created_children :: nat
  num_expected_children :: nat
  parents :: "node_ptr list"
  renamed_child :: "node_ptr option"
  position :: int
  num_created_parents :: nat
  used_in_result :: bool

definition new_Data :: Data where
  "new_Data = \<lparr>node = None, num_created_children = 0, num_expected_children = 0, parents = [],
     renamed_child = None, position = - 1, num_created_parents = 0, used_in_result = False\<rparr>"

definition out_of_range :: exception where
  "out_of_range = Exception INVALID_MEMORY_ACCESS ''index outside the vector''"

text \<open>
  \<^verbatim>\<open>reverse_index[p]\<close> on a \<^verbatim>\<open>std::unordered_map\<close>: a key that is absent is inserted with
  the value 0. The map is kept with its size.
\<close>

definition ri_at :: "(node_ptr \<rightharpoonup> nat) \<Rightarrow> node_ptr \<Rightarrow> nat" where
  "ri_at reverse_index p = (case reverse_index p of None \<Rightarrow> 0 | Some i \<Rightarrow> i)"

text \<open>The first loop: \<^verbatim>\<open>data[id].node = &node; reverse_index[&node] = id\<close>.\<close>

fun number_nodes ::
  "Nodes \<Rightarrow> Data list \<Rightarrow> (node_ptr \<rightharpoonup> nat) \<Rightarrow> nat \<Rightarrow> Data list \<times> (node_ptr \<rightharpoonup> nat)" where
  "number_nodes [] ds reverse_index sz = (ds, reverse_index)"
| "number_nodes ((p, n) # rest) ds reverse_index sz =
     number_nodes rest (ds[sz := (ds ! sz)\<lparr>Data.node := Some p\<rparr>])
       (reverse_index(p \<mapsto> sz)) (if reverse_index p = None then Suc sz else sz)"

text \<open>The second loop: expected children, \<open>used_in_result\<close>, parents, renamed child.\<close>

fun add_parent :: "(node_ptr \<rightharpoonup> nat) \<Rightarrow> node_ptr \<Rightarrow> node_ptr list \<Rightarrow> Data list \<Rightarrow> exception + Data list" where
  "add_parent reverse_index p [] ds = Inr ds"
| "add_parent reverse_index p (child # rest) ds =
     (let i = ri_at reverse_index child in
      if i \<ge> length ds then Inl out_of_range
      else add_parent reverse_index p rest (ds[i := (ds ! i)\<lparr>parents := parents (ds ! i) @ [p]\<rparr>]))"

fun count_children ::
  "(string \<rightharpoonup> node_ptr) \<Rightarrow> (node_ptr \<rightharpoonup> nat) \<Rightarrow> Nodes \<Rightarrow> Data list \<Rightarrow> exception + Data list" where
  "count_children idx reverse_index [] ds = Inr ds"
| "count_children idx reverse_index ((p, n) # rest) ds =
     (let i = ri_at reverse_index p in
      if i \<ge> length ds then Inl out_of_range
      else
        let ds1 = ds[i := (ds ! i)\<lparr>
                      num_expected_children := num_expected_children (ds ! i) + length (children n),
                      used_in_result := (renaming_parent n = None \<and> idx (result_name n) \<noteq> None)\<rparr>]
        in bind_result (add_parent reverse_index p (children n) ds1) (\<lambda>ds2.
             case renaming_parent n of
               None \<Rightarrow> count_children idx reverse_index rest ds2
             | Some rp \<Rightarrow>
                 (let j = ri_at reverse_index rp in
                  if j \<ge> length ds2 then Inl out_of_range
                  else count_children idx reverse_index rest
                         (ds2[j := (ds2 ! j)\<lparr>renamed_child := Some p,
                                  num_expected_children := Suc (num_expected_children (ds2 ! j))\<rparr>]))))"

text \<open>The third loop: the nodes that are ready at the start.\<close>

fun initial_ready_nodes :: "(node_ptr \<rightharpoonup> nat) \<Rightarrow> Data list \<Rightarrow> Nodes \<Rightarrow> exception + node_ptr list" where
  "initial_ready_nodes reverse_index ds [] = Inr []"
| "initial_ready_nodes reverse_index ds ((p, n) # rest) =
     (let i = ri_at reverse_index p in
      if i \<ge> length ds then Inl out_of_range
      else bind_result (initial_ready_nodes reverse_index ds rest) (\<lambda>ready.
             Inr (if children n = [] \<and> renamed_child (ds ! i) = None then p # ready else ready)))"

text \<open>
  The state of the main loop: \<open>data\<close>, the two queues (the head of the list is the front),
  the stack of free positions (the head is the top) and the program under construction.
\<close>

type_synonym linearizer =
  "Data list \<times> node_ptr list \<times> node_ptr list \<times> nat list \<times> ExpressionActions"

text \<open>The lambda \<^verbatim>\<open>update_parent\<close>.\<close>

definition update_parent ::
  "Nodes \<Rightarrow> (node_ptr \<rightharpoonup> nat) \<Rightarrow> node_ptr \<Rightarrow> Data list \<times> node_ptr list \<times> node_ptr list
     \<Rightarrow> exception + Data list \<times> node_ptr list \<times> node_ptr list" where
  "update_parent ns reverse_index parent st =
     (case st of (ds, ready_nodes, ready_array_joins) \<Rightarrow>
        let i = ri_at reverse_index parent in
        if i \<ge> length ds then Inl out_of_range
        else
          let cur = (ds ! i)\<lparr>num_created_children := Suc (num_created_children (ds ! i))\<rparr>;
              ds' = ds[i := cur]
          in if num_created_children cur = num_expected_children cur
             then (case node_at ns parent of
                     None \<Rightarrow> Inl invalid_pointer
                   | Some p \<Rightarrow>
                       if type p = ARRAY_JOIN
                       then Inr (ds', ready_nodes, ready_array_joins @ [parent])
                       else Inr (ds', ready_nodes @ [parent], ready_array_joins))
             else Inr (ds', ready_nodes, ready_array_joins))"

fun update_parents ::
  "Nodes \<Rightarrow> (node_ptr \<rightharpoonup> nat) \<Rightarrow> node_ptr list \<Rightarrow> Data list \<times> node_ptr list \<times> node_ptr list
     \<Rightarrow> exception + Data list \<times> node_ptr list \<times> node_ptr list" where
  "update_parents ns reverse_index [] st = Inr st"
| "update_parents ns reverse_index (parent # rest) st =
     bind_result (update_parent ns reverse_index parent st) (update_parents ns reverse_index rest)"

text \<open>The loop over the children of the node that builds its arguments.\<close>

fun make_arguments ::
  "Nodes \<Rightarrow> (node_ptr \<rightharpoonup> nat) \<Rightarrow> node_ptr list \<Rightarrow> Data list \<Rightarrow> Argument list
     \<Rightarrow> exception + Data list \<times> Argument list" where
  "make_arguments ns reverse_index [] ds args = Inr (ds, args)"
| "make_arguments ns reverse_index (child # rest) ds args =
     (let i = ri_at reverse_index child in
      if i \<ge> length ds then Inl out_of_range
      else if position (ds ! i) < 0
      then (case node_at ns child of
              None \<Rightarrow> Inl invalid_pointer
            | Some c \<Rightarrow> Inl (Exception LOGICAL_ERROR (''Argument was not calculated for '' @ result_name c)))
      else
        let arg = (ds ! i)\<lparr>num_created_parents := Suc (num_created_parents (ds ! i))\<rparr>;
            argument = \<lparr>pos = nat (position arg),
                        remove = (\<not> used_in_result arg \<and> num_created_parents arg = length (parents arg))\<rparr>
        in make_arguments ns reverse_index rest (ds[i := arg]) (args @ [argument]))"

text \<open>One iteration of the main loop; at least one queue is not empty.\<close>

definition pop_ready :: "node_ptr list \<Rightarrow> node_ptr list \<Rightarrow> exception + node_ptr \<times> node_ptr list \<times> node_ptr list" where
  "pop_ready ready_nodes ready_array_joins =
     (case ready_nodes of
        nd # rest \<Rightarrow> Inr (nd, rest, ready_array_joins)
      | [] \<Rightarrow> (case ready_array_joins of
                 nd # rest \<Rightarrow> Inr (nd, [], rest)
               | [] \<Rightarrow> Inl out_of_range))"

definition take_position :: "nat list \<Rightarrow> ExpressionActions \<Rightarrow> nat \<times> nat list \<times> ExpressionActions" where
  "take_position free_positions expressions =
     (case free_positions of
        [] \<Rightarrow> (num_columns expressions, [], expressions\<lparr>num_columns := Suc (num_columns expressions)\<rparr>)
      | p # rest \<Rightarrow> (p, rest, expressions))"

definition linearize_step ::
  "Nodes \<Rightarrow> (node_ptr \<rightharpoonup> nat) \<Rightarrow> linearizer \<Rightarrow> exception + linearizer" where
  "linearize_step ns reverse_index st =
     (case st of (ds, ready_nodes, ready_array_joins, free_positions, expressions) \<Rightarrow>
      bind_result (pop_ready ready_nodes ready_array_joins) (\<lambda>(nd, ready_nodes1, ready_array_joins1).
      case node_at ns nd of
        None \<Rightarrow> Inl invalid_pointer
      | Some n \<Rightarrow>
          if \<not> list_all (\<lambda>child. node_at ns child \<noteq> None) (children n) then Inl invalid_pointer
          else
            let i = ri_at reverse_index nd in
            if i \<ge> length ds then Inl out_of_range
            else
              case take_position free_positions expressions of
                (free_position, free_positions1, expressions1) \<Rightarrow>
                  let ds1 = ds[i := (ds ! i)\<lparr>position := int free_position\<rparr>] in
                  (case Data.node (ds1 ! i) of
                     None \<Rightarrow> Inl invalid_pointer
                   | Some cur_ptr \<Rightarrow>
                       (case node_at ns cur_ptr of
                          None \<Rightarrow> Inl invalid_pointer
                        | Some cur_node \<Rightarrow>
                            bind_result (make_arguments ns reverse_index (children cur_node) ds1 []) (\<lambda>(ds2, args).
                              let cur = ds2 ! i;
                                  expressions2 =
                                    (if type n = INPUT
                                     then expressions1\<lparr>required_columns :=
                                            required_columns expressions1 @ [(result_name n, result_type n)]\<rparr>
                                     else expressions1\<lparr>actions :=
                                            actions expressions1 @
                                              [\<lparr>Action.node = nd, arguments = args,
                                                result_position = free_position,
                                                is_used_in_result = used_in_result cur\<rparr>]\<rparr>);
                                  expressions3 =
                                    (if used_in_result cur
                                     then expressions2\<lparr>sample_block :=
                                            insert_block (sample_block expressions2)
                                              \<lparr>ColumnWithTypeAndName.column = column cur_node,
                                               ColumnWithTypeAndName.type = result_type cur_node,
                                               name = result_name cur_node\<rparr>\<rparr>
                                     else expressions2)
                              in
                              bind_result (update_parents ns reverse_index
                                             (parents cur @ (case renaming_parent n of None \<Rightarrow> [] | Some rp \<Rightarrow> [rp]))
                                             (ds2, ready_nodes1, ready_array_joins1))
                                (\<lambda>(ds3, ready_nodes2, ready_array_joins2).
                                   Inr (ds3, ready_nodes2, ready_array_joins2, free_positions1, expressions3)))))))"

text \<open>
  The loop ends: a node enters a queue only when its count of created children reaches
  the expected count, and every iteration takes one node out of a queue. The measure is
  the number of queued nodes plus the number of nodes still waiting for children.
\<close>

definition waiting :: "Data list \<Rightarrow> nat" where
  "waiting ds = sum_list (map (\<lambda>d. if num_created_children d < num_expected_children d then 1 else 0) ds)"

definition pending :: "linearizer \<Rightarrow> nat" where
  "pending st =
     (case st of (ds, ready_nodes, ready_array_joins, free_positions, expressions) \<Rightarrow>
        length ready_nodes + length ready_array_joins + waiting ds)"

lemma waiting_update:
  "i < length ds \<Longrightarrow>
   waiting (ds[i := d]) + (if num_created_children (ds ! i) < num_expected_children (ds ! i) then 1 else 0)
     = waiting ds + (if num_created_children d < num_expected_children d then 1 else 0)"
proof (induction ds arbitrary: i)
  case Nil
  then show ?case by simp
next
  case (Cons a ds)
  show ?case
  proof (cases i)
    case 0
    then show ?thesis by (simp add: waiting_def)
  next
    case (Suc j)
    with Cons.prems have "j < length ds" by simp
    from Cons.IH[OF this] Suc show ?thesis by (simp add: waiting_def)
  qed
qed

lemma waiting_update_same:
  assumes "i < length ds"
    and "num_created_children d = num_created_children (ds ! i)"
    and "num_expected_children d = num_expected_children (ds ! i)"
  shows "waiting (ds[i := d]) = waiting ds"
  using waiting_update[OF assms(1), of d] assms(2,3) by simp

lemma update_parent_pending:
  assumes "update_parent ns ri p (ds, rn, raj) = Inr (ds', rn', raj')"
  shows "length rn' + length raj' + waiting ds' \<le> length rn + length raj + waiting ds"
proof -
  let ?i = "ri_at ri p"
  from assms have i: "?i < length ds"
    by (auto simp: update_parent_def Let_def split: if_splits)
  let ?cur = "(ds ! ?i)\<lparr>num_created_children := Suc (num_created_children (ds ! ?i))\<rparr>"
  have w: "waiting (ds[?i := ?cur]) + (if num_created_children (ds ! ?i) < num_expected_children (ds ! ?i) then 1 else 0)
     = waiting ds + (if num_created_children ?cur < num_expected_children ?cur then 1 else 0)"
    by (rule waiting_update[OF i])
  show ?thesis
  proof (cases "num_created_children ?cur = num_expected_children ?cur")
    case True
    with w have "Suc (waiting (ds[?i := ?cur])) = waiting ds" by simp
    with assms i True show ?thesis
      by (auto simp: update_parent_def Let_def split: if_splits option.splits)
  next
    case False
    with w have "waiting (ds[?i := ?cur]) \<le> waiting ds" by (simp split: if_splits)
    with assms i False show ?thesis
      by (auto simp: update_parent_def Let_def split: if_splits option.splits)
  qed
qed

lemma update_parents_pending:
  "update_parents ns ri ps (ds, rn, raj) = Inr (ds', rn', raj') \<Longrightarrow>
   length rn' + length raj' + waiting ds' \<le> length rn + length raj + waiting ds"
proof (induction ps arbitrary: ds rn raj)
  case Nil
  then show ?case by simp
next
  case (Cons p ps)
  from Cons.prems obtain ds1 rn1 raj1 where
    1: "update_parent ns ri p (ds, rn, raj) = Inr (ds1, rn1, raj1)" and
    2: "update_parents ns ri ps (ds1, rn1, raj1) = Inr (ds', rn', raj')"
    by (auto simp: bind_result_def split: sum.splits)
  from update_parent_pending[OF 1] Cons.IH[OF 2] show ?case by simp
qed

lemma make_arguments_waiting:
  "make_arguments ns ri cs ds args = Inr (ds', args') \<Longrightarrow> waiting ds' = waiting ds \<and> length ds' = length ds"
proof (induction cs arbitrary: ds args)
  case Nil
  then show ?case by simp
next
  case (Cons c cs)
  let ?i = "ri_at ri c"
  from Cons.prems have i: "?i < length ds"
    by (auto simp: Let_def split: if_splits)
  let ?arg = "(ds ! ?i)\<lparr>num_created_parents := Suc (num_created_parents (ds ! ?i))\<rparr>"
  from Cons.prems i obtain a where
    r: "make_arguments ns ri cs (ds[?i := ?arg]) a = Inr (ds', args')"
    by (auto simp: Let_def split: if_splits option.splits)
  have "waiting (ds[?i := ?arg]) = waiting ds"
    by (rule waiting_update_same[OF i]) simp_all
  with Cons.IH[OF r] show ?case by simp
qed

lemma linearize_step_pending:
  assumes "linearize_step ns ri st = Inr st'"
  shows "pending st' < pending st"
proof -
  obtain ds rn raj fp ex where st: "st = (ds, rn, raj, fp, ex)"
    by (cases st) auto
  obtain ds' rn' raj' fp' ex' where st': "st' = (ds', rn', raj', fp', ex')"
    by (cases st') auto
  from assms st obtain nd rn1 raj1 where
    pop: "pop_ready rn raj = Inr (nd, rn1, raj1)"
    by (auto simp: linearize_step_def bind_result_def split: sum.splits)
  then have len: "Suc (length rn1 + length raj1) = length rn + length raj"
    by (auto simp: pop_ready_def split: list.splits)
  let ?i = "ri_at ri nd"
  from assms st pop have i: "?i < length ds"
    by (auto simp: linearize_step_def bind_result_def Let_def split: sum.splits option.splits if_splits)
  let ?ds1 = "ds[?i := (ds ! ?i)\<lparr>position := int (fst (take_position fp ex))\<rparr>]"
  have w1: "waiting ?ds1 = waiting ds"
    by (rule waiting_update_same[OF i]) simp_all
  from assms st st' pop i obtain cs ds2 args ps where
    ma: "make_arguments ns ri cs ?ds1 [] = Inr (ds2, args)" and
    up: "update_parents ns ri ps (ds2, rn1, raj1) = Inr (ds', rn', raj')"
    by (auto simp: linearize_step_def bind_result_def Let_def
             split: sum.splits option.splits if_splits prod.splits)
  from make_arguments_waiting[OF ma] w1 have "waiting ds2 = waiting ds" by simp
  with update_parents_pending[OF up] len show ?thesis
    by (simp add: pending_def st st')
qed

definition queues_empty :: "linearizer \<Rightarrow> bool" where
  "queues_empty st =
     (case st of (ds, ready_nodes, ready_array_joins, free_positions, expressions) \<Rightarrow>
        ready_nodes = [] \<and> ready_array_joins = [])"

function linearize_loop :: "Nodes \<Rightarrow> (node_ptr \<rightharpoonup> nat) \<Rightarrow> linearizer \<Rightarrow> exception + linearizer" where
  "linearize_loop ns reverse_index st =
     (if queues_empty st then Inr st
      else case linearize_step ns reverse_index st of
             Inl e \<Rightarrow> Inl e
           | Inr st' \<Rightarrow> linearize_loop ns reverse_index st')"
  by pat_completeness auto
termination
  by (relation "measure (\<lambda>(ns, reverse_index, st). pending st)") (auto simp: linearize_step_pending)

declare linearize_loop.simps [simp del]

text \<open>
  \<^verbatim>\<open>buildExpressions\<close> returns the program and leaves the DAG with the node list of the
  fresh program (the lists are swapped) and an empty index; both are returned.
\<close>

definition too_many_temporary_columns :: "ActionsDAG \<Rightarrow> exception" where
  "too_many_temporary_columns dag =
     Exception TOO_MANY_TEMPORARY_COLUMNS
       (''Too many temporary columns: '' @ dumpNames dag @ ''. Maximum: '' @
        to_string (max_temporary_columns dag))"

definition buildExpressions :: "ActionsDAG \<Rightarrow> exception + ExpressionActions \<times> ActionsDAG" where
  "buildExpressions dag =
     (let ns = ActionsDAG.nodes dag;
          numbered = number_nodes ns (replicate (length ns) new_Data) Map.empty 0;
          reverse_index = snd numbered
      in
      bind_result (count_children (index dag) reverse_index ns (fst numbered)) (\<lambda>ds.
      bind_result (initial_ready_nodes reverse_index ds ns) (\<lambda>ready_nodes.
      bind_result (linearize_loop ns reverse_index (ds, ready_nodes, [], [], new_ExpressionActions))
        (\<lambda>(ds', ready_nodes', ready_array_joins', free_positions', expressions).
           let expressions1 = expressions\<lparr>ExpressionActions.nodes := ns\<rparr>;
               dag1 = dag\<lparr>ActionsDAG.nodes := ExpressionActions.nodes expressions, index := Map.empty\<rparr>
           in
           if max_temporary_columns dag1 \<noteq> 0 \<and> num_columns expressions1 > max_temporary_columns dag1
           then Inl (too_many_temporary_columns dag1)
           else Inr (expressions1\<lparr>ExpressionActions.max_temporary_non_const_columns :=
                                     ActionsDAG.max_temporary_non_const_columns dag1\<rparr>, dag1)))))"

section \<open>The executor\<close>

text \<open>
  \<^verbatim>\<open>input_columns\<close> refers to the columns of the block itself (the spec: every original
  input column is replicated by an array join): the context carries them while the actions
  run and \<^verbatim>\<open>execute\<close> puts them back into the block.
\<close>

record ExecutionContext =
  input_columns :: ColumnsWithTypeAndName
  columns :: ColumnsWithTypeAndName
  num_rows :: nat

definition children_names :: "Nodes \<Rightarrow> node_ptr list \<Rightarrow> exception + string list" where
  "children_names ns ps =
     (if list_all (\<lambda>p. node_at ns p \<noteq> None) ps
      then Inr (map (\<lambda>p. case node_at ns p of Some c \<Rightarrow> result_name c | None \<Rightarrow> []) ps)
      else Inl invalid_pointer)"

definition type_name_or :: "data_type option \<Rightarrow> string" where
  "type_name_or t = (case t of Some ty \<Rightarrow> type_getName ty | None \<Rightarrow> ''(no type)'')"

definition Action_toString :: "Nodes \<Rightarrow> Action \<Rightarrow> exception + string" where
  "Action_toString ns action =
     (case node_at ns (Action.node action) of
        None \<Rightarrow> Inl invalid_pointer
      | Some n \<Rightarrow>
          bind_result (children_names ns (children n)) (\<lambda>names.
            case type n of
              COLUMN \<Rightarrow>
                Inr (''COLUMN '' @ result_name n @ '' '' @ type_name_or (result_type n) @ '' '' @
                     (case column n of Some c \<Rightarrow> column_getName c | None \<Rightarrow> ''(no column)''))
            | ALIAS \<Rightarrow>
                (case (names, arguments action) of
                   (front # rest, arg # args) \<Rightarrow>
                     Inr (''ALIAS '' @ result_name n @ '' = '' @ front @ (if remove arg then '' (removing)'' else []))
                 | _ \<Rightarrow> Inl out_of_range)
            | FUNCTION \<Rightarrow>
                Inr (''FUNCTION '' @ result_name n @ '' '' @
                     (if is_function_compiled n then ''[compiled] '' else []) @
                     type_name_or (result_type n) @ '' = '' @
                     (case function_base n of Some base \<Rightarrow> getName base | None \<Rightarrow> ''(no function)'') @
                     ''('' @ join_names '', '' names @ '')'')
            | ARRAY_JOIN \<Rightarrow>
                (case names of
                   front # rest \<Rightarrow> Inr (''ARRAY JOIN '' @ front @ '' -> '' @ result_name n)
                 | [] \<Rightarrow> Inl out_of_range)
            | INPUT \<Rightarrow> Inr []))"

definition is_non_const :: "ColumnWithTypeAndName \<Rightarrow> bool" where
  "is_non_const c = (case ColumnWithTypeAndName.column c of None \<Rightarrow> False | Some col \<Rightarrow> \<not> isColumnConst col)"

definition checkLimits :: "ExpressionActions \<Rightarrow> ExecutionContext \<Rightarrow> exception + unit" where
  "checkLimits expressions execution_context =
     (if ExpressionActions.max_temporary_non_const_columns expressions \<noteq> 0
      then
        let non_const_columns = length (filter is_non_const (columns execution_context)) in
        if non_const_columns > Settings.max_temporary_non_const_columns (settings expressions)
        then Inl (Exception TOO_MANY_TEMPORARY_NON_CONST_COLUMNS
                (''Too many temporary non-const columns:'' @
                 concat (map (\<lambda>c. [CHR 0x0A] @ name c) (filter is_non_const (columns execution_context))) @
                 ''. Maximum: '' @ to_string (Settings.max_temporary_non_const_columns (settings expressions))))
        else Inr ()
      else Inr ())"

text \<open>
  The first loop of the FUNCTION case moves every argument out of its slot; the loop after
  the call moves, for an argument that is not to be removed, the slot into the local
  argument once more, which leaves the slot empty.
\<close>

fun move_arguments ::
  "Argument list \<Rightarrow> ColumnsWithTypeAndName \<Rightarrow> ColumnsWithTypeAndName
     \<Rightarrow> exception + ColumnsWithTypeAndName \<times> ColumnsWithTypeAndName" where
  "move_arguments [] cols args = Inr (cols, args)"
| "move_arguments (a # rest) cols args =
     (if pos a \<ge> length cols then Inl out_of_range
      else move_arguments rest (cols[pos a := empty_cwt]) (args @ [cols ! pos a]))"

fun move_kept_arguments :: "Argument list \<Rightarrow> ColumnsWithTypeAndName \<Rightarrow> exception + ColumnsWithTypeAndName" where
  "move_kept_arguments [] cols = Inr cols"
| "move_kept_arguments (a # rest) cols =
     (if pos a \<ge> length cols then Inl out_of_range
      else move_kept_arguments rest (if \<not> remove a then cols[pos a := empty_cwt] else cols))"

definition replicate_cwt :: "nat list \<Rightarrow> ColumnWithTypeAndName \<Rightarrow> ColumnWithTypeAndName" where
  "replicate_cwt offsets c =
     (case ColumnWithTypeAndName.column c of
        None \<Rightarrow> c
      | Some col \<Rightarrow> c\<lparr>ColumnWithTypeAndName.column := Some (replicate_column col offsets)\<rparr>)"

definition executeAction ::
  "Nodes \<Rightarrow> Action \<Rightarrow> ExecutionContext \<Rightarrow> bool \<Rightarrow> exception + ExecutionContext" where
  "executeAction ns action execution_context dry_run =
     (let cols = columns execution_context in
      case node_at ns (Action.node action) of
        None \<Rightarrow> Inl invalid_pointer
      | Some n \<Rightarrow>
         (case type n of
            FUNCTION \<Rightarrow>
              if result_position action \<ge> length cols then Inl out_of_range
              else
                let res_column = cols ! result_position action in
                if ColumnWithTypeAndName.type res_column \<noteq> None \<or> ColumnWithTypeAndName.column res_column \<noteq> None
                then Inl (Exception LOGICAL_ERROR ''Result column is not empty'')
                else
                  let cols1 = cols[result_position action :=
                                res_column\<lparr>ColumnWithTypeAndName.type := result_type n, name := result_name n\<rparr>]
                  in
                  bind_result (move_arguments (arguments action) cols1 []) (\<lambda>(cols2, args).
                    case executable_function n of
                      None \<Rightarrow> Inl invalid_pointer
                    | Some f \<Rightarrow>
                        bind_result (f args (ColumnWithTypeAndName.type (cols2 ! result_position action))
                                       (num_rows execution_context) dry_run) (\<lambda>res.
                          let cols3 = cols2[result_position action :=
                                        (cols2 ! result_position action)\<lparr>ColumnWithTypeAndName.column := Some res\<rparr>]
                          in
                          bind_result (move_kept_arguments (arguments action) cols3) (\<lambda>cols4.
                            Inr (execution_context\<lparr>columns := cols4\<rparr>))))
          | ARRAY_JOIN \<Rightarrow>
              (case arguments action of
                 [] \<Rightarrow> Inl out_of_range
               | front # rest \<Rightarrow>
                   if pos front \<ge> length cols then Inl out_of_range
                   else
                     let array_join_key = cols ! pos front;
                         cols1 = (if remove front then cols[pos front := empty_cwt] else cols)
                     in
                     (case ColumnWithTypeAndName.column array_join_key of
                        None \<Rightarrow> Inl (Exception INVALID_MEMORY_ACCESS ''column is nullptr'')
                      | Some key_column \<Rightarrow>
                          (case convertToFullColumnIfConst key_column of
                             ColumnArray array \<Rightarrow>
                               let cols2 = map (replicate_cwt (getOffsets array)) cols1;
                                   inputs = map (replicate_cwt (getOffsets array)) (input_columns execution_context)
                               in
                               if result_position action \<ge> length cols2 then Inl out_of_range
                               else
                                 (case ColumnWithTypeAndName.type array_join_key of
                                    Some (DataTypeArray nested) \<Rightarrow>
                                      Inr \<lparr>input_columns = inputs,
                                           columns = cols2[result_position action :=
                                             (cols2 ! result_position action)\<lparr>
                                               ColumnWithTypeAndName.column := Some (getDataPtr array),
                                               ColumnWithTypeAndName.type := Some nested\<rparr>],
                                           num_rows = size_column (getDataPtr array)\<rparr>
                                  | _ \<Rightarrow> Inl (Exception INVALID_MEMORY_ACCESS ''type is not an array type''))
                           | _ \<Rightarrow> Inl (Exception TYPE_MISMATCH (''ARRAY JOIN of not array: '' @ result_name n)))))
          | COLUMN \<Rightarrow>
              if result_position action \<ge> length cols then Inl out_of_range
              else
                (case column n of
                   None \<Rightarrow> Inl (Exception INVALID_MEMORY_ACCESS ''column is nullptr'')
                 | Some c \<Rightarrow>
                     Inr (execution_context\<lparr>columns := cols[result_position action :=
                            (cols ! result_position action)\<lparr>
                              ColumnWithTypeAndName.column := Some (cloneResized c (num_rows execution_context)),
                              ColumnWithTypeAndName.type := result_type n\<rparr>]\<rparr>))
          | ALIAS \<Rightarrow>
              (case arguments action of
                 [] \<Rightarrow> Inl out_of_range
               | arg # rest \<Rightarrow>
                   if result_position action \<ge> length cols \<or> pos arg \<ge> length cols then Inl out_of_range
                   else
                     let cols1 = (if result_position action \<noteq> pos arg
                                  then cols[result_position action :=
                                         (cols ! result_position action)\<lparr>
                                           ColumnWithTypeAndName.column := ColumnWithTypeAndName.column (cols ! pos arg),
                                           ColumnWithTypeAndName.type := ColumnWithTypeAndName.type (cols ! pos arg)\<rparr>]
                                  else cols);
                         cols2 = cols1[result_position action := (cols1 ! result_position action)\<lparr>name := result_name n\<rparr>];
                         cols3 = (if remove arg then cols2[pos arg := empty_cwt] else cols2)
                     in Inr (execution_context\<lparr>columns := cols3\<rparr>))
          | INPUT \<Rightarrow> Inl (Exception LOGICAL_ERROR ''Cannot execute INPUT action'')))"

text \<open>
  \<^verbatim>\<open>execute\<close>, first loop: every required column is moved out of the block into the next
  slot, which leaves an empty column at its position in the block; the position is
  recorded for removal when the sample block has no column of that name.
\<close>

fun move_inputs ::
  "Block \<Rightarrow> (string \<times> data_type option) list \<Rightarrow> Block \<Rightarrow> ColumnsWithTypeAndName \<Rightarrow> nat list
     \<Rightarrow> exception + Block \<times> ColumnsWithTypeAndName \<times> nat list" where
  "move_inputs sample [] block cols inputs_to_remove = Inr (block, cols, inputs_to_remove)"
| "move_inputs sample ((n, t) # required) block cols inputs_to_remove =
     bind_result (getPositionByName block n) (\<lambda>p.
       if p \<ge> length (data block) then Inl out_of_range
       else move_inputs sample required
              (block\<lparr>data := (data block)[p := empty_cwt]\<rparr>)
              (cols @ [data block ! p])
              (if \<not> has sample n then inputs_to_remove @ [p] else inputs_to_remove))"

text \<open>\<^verbatim>\<open>columns.resize(num_columns)\<close>\<close>

definition resize_columns :: "ColumnsWithTypeAndName \<Rightarrow> nat \<Rightarrow> ColumnsWithTypeAndName" where
  "resize_columns cols n = take n cols @ replicate (n - length cols) empty_cwt"

text \<open>
  The loop over the actions. An exception of an action gets the rendering of the action
  appended to its message and is thrown again.
\<close>

fun add_message :: "exception \<Rightarrow> string \<Rightarrow> exception" where
  "add_message (Exception c m) extra = Exception c (if m = [] then extra else m @ '': '' @ extra)"

definition while_executing :: "Nodes \<Rightarrow> Action \<Rightarrow> exception \<Rightarrow> exception" where
  "while_executing ns action e =
     (if code e = INVALID_MEMORY_ACCESS then e
      else case Action_toString ns action of
             Inl e' \<Rightarrow> e'
           | Inr str \<Rightarrow> add_message e (''while executing '' @ [CHR 0x27] @ str @ [CHR 0x27]))"

fun execute_actions ::
  "ExpressionActions \<Rightarrow> Action list \<Rightarrow> ExecutionContext \<Rightarrow> bool \<Rightarrow> exception + ExecutionContext" where
  "execute_actions expressions [] execution_context dry_run = Inr execution_context"
| "execute_actions expressions (action # rest) execution_context dry_run =
     (case bind_result (executeAction (ExpressionActions.nodes expressions) action execution_context dry_run)
             (\<lambda>ctx. bind_result (checkLimits expressions ctx) (\<lambda>u. Inr ctx)) of
        Inl e \<Rightarrow> Inl (while_executing (ExpressionActions.nodes expressions) action e)
      | Inr ctx \<Rightarrow> execute_actions expressions rest ctx dry_run)"

text \<open>The recorded positions are erased from the largest to the smallest.\<close>

fun erase_inputs :: "Block \<Rightarrow> nat list \<Rightarrow> exception + Block" where
  "erase_inputs block [] = Inr block"
| "erase_inputs block (input # rest) = bind_result (erase block input) (\<lambda>block'. erase_inputs block' rest)"

text \<open>
  The last loop: the slot of every action that is used in the result gets the result name
  and is moved into the block, over the column of that name if the block has one.
\<close>

fun move_results ::
  "Nodes \<Rightarrow> Action list \<Rightarrow> ColumnsWithTypeAndName \<Rightarrow> Block \<Rightarrow> exception + Block" where
  "move_results ns [] cols block = Inr block"
| "move_results ns (action # rest) cols block =
     (if \<not> is_used_in_result action then move_results ns rest cols block
      else if result_position action \<ge> length cols then Inl out_of_range
      else case node_at ns (Action.node action) of
             None \<Rightarrow> Inl invalid_pointer
           | Some n \<Rightarrow>
               let col = (cols ! result_position action)\<lparr>name := result_name n\<rparr>;
                   cols' = cols[result_position action := empty_cwt]
               in (case index_by_name block (result_name n) of
                     Some p \<Rightarrow>
                       if p \<ge> length (data block) then Inl out_of_range
                       else move_results ns rest cols' (block\<lparr>data := (data block)[p := col]\<rparr>)
                   | None \<Rightarrow> move_results ns rest cols' (insert_block block col)))"

definition execute_prepare :: "ExpressionActions \<Rightarrow> Block \<Rightarrow> exception + Block \<times> ExecutionContext \<times> nat list" where
  "execute_prepare expressions block =
     bind_result (move_inputs (sample_block expressions) (required_columns expressions) block [] [])
       (\<lambda>(block1, cols, inputs_to_remove).
          Inr (block1,
               \<lparr>input_columns = data block1,
                columns = resize_columns cols (num_columns expressions),
                num_rows = rows block\<rparr>,
               inputs_to_remove))"

definition execute_finish ::
  "ExpressionActions \<Rightarrow> Block \<Rightarrow> ExecutionContext \<Rightarrow> nat list \<Rightarrow> exception + Block" where
  "execute_finish expressions block1 execution_context inputs_to_remove =
     (let block2 = block1\<lparr>data := input_columns execution_context\<rparr> in
      bind_result (if project_input expressions then Inr empty_Block
                   else erase_inputs block2 (rev (sort inputs_to_remove))) (\<lambda>block3.
        move_results (ExpressionActions.nodes expressions) (actions expressions)
          (columns execution_context) block3))"

definition execute :: "ExpressionActions \<Rightarrow> Block \<Rightarrow> bool \<Rightarrow> exception + Block" where
  "execute expressions block dry_run =
     bind_result (execute_prepare expressions block) (\<lambda>(block1, execution_context, inputs_to_remove).
     bind_result (execute_actions expressions (actions expressions) execution_context dry_run) (\<lambda>ctx.
       execute_finish expressions block1 ctx inputs_to_remove))"

subsection \<open>Introspection\<close>

definition getRequiredColumns :: "ExpressionActions \<Rightarrow> string list" where
  "getRequiredColumns expressions = map fst (required_columns expressions)"

text \<open>
  \<^verbatim>\<open>checkColumnIsAlwaysFalse\<close>. The first loop goes through the actions from the last to
  the first and stops at the first FUNCTION action of that name, with more than one child,
  whose function is \<open>in\<close> or \<open>globalIn\<close>; it keeps the name of the second child.
\<close>

definition is_in_function :: "Nodes \<Rightarrow> string \<Rightarrow> Action \<Rightarrow> bool" where
  "is_in_function ns column_name action =
     (case node_at ns (Action.node action) of
        None \<Rightarrow> False
      | Some n \<Rightarrow>
          (case function_base n of
             None \<Rightarrow> False
           | Some base \<Rightarrow>
               type n = FUNCTION \<and> result_name n = column_name \<and> length (children n) > 1 \<and>
               (getName base = ''in'' \<or> getName base = ''globalIn'')))"

definition second_child_name :: "Nodes \<Rightarrow> Action \<Rightarrow> exception + string" where
  "second_child_name ns action =
     (case node_at ns (Action.node action) of
        None \<Rightarrow> Inl invalid_pointer
      | Some n \<Rightarrow>
          if length (children n) \<le> 1 then Inl out_of_range
          else (case node_at ns (children n ! 1) of
                  None \<Rightarrow> Inl invalid_pointer
                | Some c \<Rightarrow> Inr (result_name c)))"

fun find_set_to_check :: "Nodes \<Rightarrow> string \<Rightarrow> Action list \<Rightarrow> exception + string" where
  "find_set_to_check ns column_name [] = Inr []"
| "find_set_to_check ns column_name (action # rest) =
     (if node_at ns (Action.node action) = None then Inl invalid_pointer
      else if is_in_function ns column_name action then second_child_name ns action
      else find_set_to_check ns column_name rest)"

text \<open>\<^verbatim>\<open>checkAndGetColumn<const ColumnSet>\<close> of the column of a COLUMN node, then the test of the set.\<close>

definition is_empty_set_column :: "Nodes \<Rightarrow> string \<Rightarrow> Action \<Rightarrow> bool" where
  "is_empty_set_column ns set_to_check action =
     (case node_at ns (Action.node action) of
        None \<Rightarrow> False
      | Some n \<Rightarrow>
          type n = COLUMN \<and> result_name n = set_to_check \<and>
          (case column n of
             Some (ColumnSet sz column_set) \<Rightarrow> isCreated column_set \<and> getTotalRowCount column_set = 0
           | _ \<Rightarrow> False))"

fun has_empty_set :: "Nodes \<Rightarrow> string \<Rightarrow> Action list \<Rightarrow> exception + bool" where
  "has_empty_set ns set_to_check [] = Inr False"
| "has_empty_set ns set_to_check (action # rest) =
     (if node_at ns (Action.node action) = None then Inl invalid_pointer
      else if is_empty_set_column ns set_to_check action then Inr True
      else has_empty_set ns set_to_check rest)"

definition checkColumnIsAlwaysFalse :: "ExpressionActions \<Rightarrow> string \<Rightarrow> exception + bool" where
  "checkColumnIsAlwaysFalse expressions column_name =
     (let ns = ExpressionActions.nodes expressions in
      bind_result (find_set_to_check ns column_name (rev (actions expressions))) (\<lambda>set_to_check.
        if set_to_check \<noteq> [] then has_empty_set ns set_to_check (actions expressions)
        else Inr False))"

section \<open>Example inputs\<close>

text \<open>
  The functions, DAGs and blocks on which the theorems below are instantiated.
  \<open>plus\<close> adds two integer columns row by row and gives a constant column for two
  constant arguments.
\<close>

definition fails_with :: "exception + 'a \<Rightarrow> error_code \<Rightarrow> bool" where
  "fails_with r c = (case r of Inl e \<Rightarrow> code e = c | Inr x \<Rightarrow> False)"

definition Int32 :: data_type where
  "Int32 = DataType ''Int32''"

fun field_plus :: "Field \<Rightarrow> Field \<Rightarrow> Field" where
  "field_plus (Int64 a) (Int64 b) = Int64 (a + b)"
| "field_plus a b = a"

fun row_value :: "column \<Rightarrow> nat \<Rightarrow> Field" where
  "row_value (ColumnVector xs) i = (if i < length xs then xs ! i else Int64 0)"
| "row_value (ColumnArray rs) i = (if i < length rs then Array (rs ! i) else Array [])"
| "row_value (ColumnConst v n) i = v"
| "row_value (ColumnSet n s) i = Int64 0"

definition plus_execute :: ExecutableFunction where
  "plus_execute args res_type n dry_run =
     (case args of
        [a, b] \<Rightarrow>
          (case (ColumnWithTypeAndName.column a, ColumnWithTypeAndName.column b) of
             (Some x, Some y) \<Rightarrow>
               if isColumnConst x \<and> isColumnConst y
               then Inr (ColumnConst (field_plus (row_value x 0) (row_value y 0)) n)
               else Inr (ColumnVector (map (\<lambda>i. field_plus (row_value x i) (row_value y i)) [0..<n]))
           | _ \<Rightarrow> Inl (Exception LOGICAL_ERROR ''argument column is nullptr''))
      | _ \<Rightarrow> Inl (Exception LOGICAL_ERROR ''plus needs two arguments''))"

definition plus_base :: FunctionBase where
  "plus_base = \<lparr>getName = ''plus'', getArgumentTypes = [Int32, Int32], getResultType = Some Int32,
     isSuitableForConstantFolding = True, isDeterministic = True,
     getResultIfAlwaysReturnsConstantAndHasArguments = (\<lambda>args. None),
     prepare = (\<lambda>args. plus_execute)\<rparr>"

definition plus :: FunctionOverloadResolver where
  "plus = \<lparr>resolver_getName = ''plus'', build = (\<lambda>args. Inr plus_base)\<rparr>"

definition no_limits :: Context where
  "no_limits = \<lparr>settings_max_temporary_columns = 0, settings_max_temporary_non_const_columns = 0,
     settings_compile_expressions = False, USE_EMBEDDED_COMPILER = False\<rparr>"

text \<open>The DAG with the one input \<open>x\<close>, and the DAG with \<open>x\<close> and the array input \<open>arr\<close>.\<close>

definition input_x :: Node where
  "input_x = new_Node\<lparr>type := INPUT, result_type := Some Int32, result_name := ''x''\<rparr>"

definition dag_x :: ActionsDAG where
  "dag_x = \<lparr>ActionsDAG.nodes = [(1, input_x)], index = [''x'' \<mapsto> 1], max_temporary_columns = 0,
     ActionsDAG.max_temporary_non_const_columns = 0\<rparr>"

definition input_arr :: Node where
  "input_arr = new_Node\<lparr>type := INPUT, result_type := Some (DataTypeArray Int32), result_name := ''arr''\<rparr>"

definition dag_x_arr :: ActionsDAG where
  "dag_x_arr = \<lparr>ActionsDAG.nodes = [(1, input_x), (2, input_arr)], index = [''x'' \<mapsto> 1, ''arr'' \<mapsto> 2],
     max_temporary_columns = 0, ActionsDAG.max_temporary_non_const_columns = 0\<rparr>"

definition const_x :: ColumnWithTypeAndName where
  "const_x = \<lparr>ColumnWithTypeAndName.column = Some (ColumnConst (Int64 1) 1), ColumnWithTypeAndName.type = Some Int32, name = ''x''\<rparr>"

definition block_x :: Block where
  "block_x = insert_block empty_Block
     \<lparr>ColumnWithTypeAndName.column = Some (ColumnVector [Int64 10, Int64 20, Int64 30]),
      ColumnWithTypeAndName.type = Some Int32, name = ''x''\<rparr>"

definition context_x :: ExecutionContext where
  "context_x = \<lparr>input_columns = [], columns = data block_x, num_rows = 3\<rparr>"

text \<open>
  Two actions that differ in their type only, and two ADD_COLUMN actions whose added
  columns differ in their value only.
\<close>

definition copy_x_y :: ExpressionAction where
  "copy_x_y = \<lparr>ExpressionAction.type = COPY_COLUMN, source_name = ''y'', ExpressionAction.result_name = ''x'',
     ExpressionAction.result_type = None, added_column = None, ExpressionAction.function_base = None,
     argument_names = [], ExpressionAction.is_function_compiled = False, table_join = None, projection = []\<rparr>"

definition array_join_x_y :: ExpressionAction where
  "array_join_x_y = copy_x_y\<lparr>ExpressionAction.type := ActionType.ARRAY_JOIN\<rparr>"

definition add_one :: ExpressionAction where
  "add_one = \<lparr>ExpressionAction.type = ADD_COLUMN, source_name = [], ExpressionAction.result_name = ''c'',
     ExpressionAction.result_type = Some Int32, added_column = Some (ColumnConst (Int64 1) 1),
     ExpressionAction.function_base = None, argument_names = [],
     ExpressionAction.is_function_compiled = False, table_join = None, projection = []\<rparr>"

definition add_two :: ExpressionAction where
  "add_two = add_one\<lparr>added_column := Some (ColumnConst (Int64 2) 1)\<rparr>"

text \<open>
  Programs are built with the builders of the DAG, one after the other, and linearized.
\<close>

definition then_add ::
  "exception + ActionsDAG \<times> node_ptr \<Rightarrow> (ActionsDAG \<Rightarrow> exception + ActionsDAG \<times> node_ptr)
     \<Rightarrow> exception + ActionsDAG \<times> node_ptr" where
  "then_add r f = bind_result r (\<lambda>(dag, p). f dag)"

definition program_of :: "exception + ActionsDAG \<times> node_ptr \<Rightarrow> ExpressionActions" where
  "program_of r =
     (case bind_result r (\<lambda>(dag, p). buildExpressions dag) of
        Inr (expressions, dag') \<Rightarrow> expressions
      | Inl e \<Rightarrow> new_ExpressionActions)"

text \<open>
  The function \<open>in\<close>, an empty set \<open>s\<close>, a set \<open>t\<close> of three rows, the program of
  \<open>in(k, s)\<close> over the empty set, the program where the name \<open>s\<close> is given to an alias of
  \<open>k\<close> before \<open>in\<close> is applied, and the program where the name \<open>s\<close> is given to an alias of
  the set of three rows before \<open>in\<close> is applied.
\<close>

definition in_execute :: ExecutableFunction where
  "in_execute args res_type n dry_run = Inr (ColumnVector (replicate n (Int64 0)))"

definition in_base :: FunctionBase where
  "in_base = \<lparr>getName = ''in'', getArgumentTypes = [Int32, DataType ''Set''],
     getResultType = Some (DataType ''UInt8''),
     isSuitableForConstantFolding = False, isDeterministic = True,
     getResultIfAlwaysReturnsConstantAndHasArguments = (\<lambda>args. None),
     prepare = (\<lambda>args. in_execute)\<rparr>"

definition in_resolver :: FunctionOverloadResolver where
  "in_resolver = \<lparr>resolver_getName = ''in'', build = (\<lambda>args. Inr in_base)\<rparr>"

definition empty_set :: ColumnWithTypeAndName where
  "empty_set = \<lparr>ColumnWithTypeAndName.column = Some (ColumnSet 1 \<lparr>isCreated = True, getTotalRowCount = 0\<rparr>),
     ColumnWithTypeAndName.type = Some (DataType ''Set''), name = ''s''\<rparr>"

definition in_empty_set :: ExpressionActions where
  "in_empty_set = program_of
     (then_add (then_add (addInput empty_ActionsDAG ''k'' (Some Int32))
        (\<lambda>dag. addColumn dag empty_set))
        (\<lambda>dag. addFunction dag in_resolver [''k'', ''s''] [] no_limits))"

definition in_alias :: ExpressionActions where
  "in_alias = program_of
     (then_add (then_add (then_add (addInput empty_ActionsDAG ''k'' (Some Int32))
        (\<lambda>dag. addColumn dag empty_set))
        (\<lambda>dag. addAlias dag ''k'' ''s'' True))
        (\<lambda>dag. addFunction dag in_resolver [''k'', ''s''] ''r'' no_limits))"

definition three_row_set :: ColumnWithTypeAndName where
  "three_row_set = \<lparr>ColumnWithTypeAndName.column = Some (ColumnSet 1 \<lparr>isCreated = True, getTotalRowCount = 3\<rparr>),
     ColumnWithTypeAndName.type = Some (DataType ''Set''), name = ''t''\<rparr>"

definition in_shadowed :: ExpressionActions where
  "in_shadowed = program_of
     (then_add (then_add (then_add (then_add (addInput empty_ActionsDAG ''k'' (Some Int32))
        (\<lambda>dag. addColumn dag empty_set))
        (\<lambda>dag. addColumn dag three_row_set))
        (\<lambda>dag. addAlias dag ''t'' ''s'' True))
        (\<lambda>dag. addFunction dag in_resolver [''k'', ''s''] ''r'' no_limits))"


text \<open>
  A program whose pointers are valid: every action refers to a node of the program, and
  so does every child of that node.
\<close>

definition valid_pointers :: "ExpressionActions \<Rightarrow> bool" where
  "valid_pointers expressions =
     list_all (\<lambda>action.
        case node_at (ExpressionActions.nodes expressions) (Action.node action) of
          None \<Rightarrow> False
        | Some n \<Rightarrow> list_all (\<lambda>child. node_at (ExpressionActions.nodes expressions) child \<noteq> None) (children n))
       (actions expressions)"

text \<open>
  \<open>checkColumnIsAlwaysFalse\<close> in the words of the spec: the named column is the output of
  a function \<open>in\<close> or \<open>globalIn\<close> whose second child is a COLUMN node carrying a fully
  constructed, empty set.
\<close>

definition spec_column_is_always_false :: "ExpressionActions \<Rightarrow> string \<Rightarrow> bool" where
  "spec_column_is_always_false expressions column_name =
     list_ex (\<lambda>action.
        case node_at (ExpressionActions.nodes expressions) (Action.node action) of
          None \<Rightarrow> False
        | Some n \<Rightarrow>
            Node.type n = FUNCTION \<and> Node.result_name n = column_name \<and>
            (case Node.function_base n of
               None \<Rightarrow> False
             | Some base \<Rightarrow> getName base = ''in'' \<or> getName base = ''globalIn'') \<and>
            length (children n) > 1 \<and>
            (case node_at (ExpressionActions.nodes expressions) (children n ! 1) of
               None \<Rightarrow> False
             | Some c \<Rightarrow>
                 Node.type c = COLUMN \<and>
                 (case Node.column c of
                    Some (ColumnSet sz column_set) \<Rightarrow> isCreated column_set \<and> getTotalRowCount column_set = 0
                  | _ \<Rightarrow> False)))
       (actions expressions)"

text \<open>
  The right-hand sides of a column: for every FUNCTION action of that name with more than
  one child, the type and the column of its second child.
\<close>

definition right_hand_sides :: "ExpressionActions \<Rightarrow> string \<Rightarrow> (Type \<times> column option) list" where
  "right_hand_sides expressions column_name =
     concat (map (\<lambda>action.
        case node_at (ExpressionActions.nodes expressions) (Action.node action) of
          None \<Rightarrow> []
        | Some n \<Rightarrow>
            if Node.type n = FUNCTION \<and> Node.result_name n = column_name \<and> length (children n) > 1
            then (case node_at (ExpressionActions.nodes expressions) (children n ! 1) of
                    None \<Rightarrow> []
                  | Some c \<Rightarrow> [(Node.type c, Node.column c)])
            else [])
       (actions expressions))"

text \<open>The number of rows of the first argument, 0 when there is no argument.\<close>

definition first_argument_rows :: "ColumnsWithTypeAndName \<Rightarrow> nat" where
  "first_argument_rows args =
     (case args of
        [] \<Rightarrow> 0
      | front # rest \<Rightarrow> (case ColumnWithTypeAndName.column front of Some c \<Rightarrow> size_column c | None \<Rightarrow> 0))"

text \<open>
  A function without arguments whose constant result is the row count it is executed at,
  and a DAG of two constant columns.
\<close>

definition rows_seen_execute :: ExecutableFunction where
  "rows_seen_execute args res_type n dry_run = Inr (ColumnConst (Int64 (int n)) n)"

definition rows_seen_base :: FunctionBase where
  "rows_seen_base = \<lparr>getName = ''rowsSeen'', getArgumentTypes = [], getResultType = Some Int32,
     isSuitableForConstantFolding = True, isDeterministic = True,
     getResultIfAlwaysReturnsConstantAndHasArguments = (\<lambda>args. None),
     prepare = (\<lambda>args. rows_seen_execute)\<rparr>"

definition rows_seen :: FunctionOverloadResolver where
  "rows_seen = \<lparr>resolver_getName = ''rowsSeen'', build = (\<lambda>args. Inr rows_seen_base)\<rparr>"

definition column_ten :: Node where
  "column_ten = new_Node\<lparr>Node.type := COLUMN, Node.result_type := Some Int32, Node.result_name := ''ten'',
     Node.column := Some (ColumnConst (Int64 10) 1)\<rparr>"

definition column_one :: Node where
  "column_one = new_Node\<lparr>Node.type := COLUMN, Node.result_type := Some Int32, Node.result_name := ''one'',
     Node.column := Some (ColumnConst (Int64 1) 1)\<rparr>"

definition dag_constants :: ActionsDAG where
  "dag_constants = \<lparr>ActionsDAG.nodes = [(1, column_ten), (2, column_one)],
     index = [''ten'' \<mapsto> 1, ''one'' \<mapsto> 2], max_temporary_columns = 0,
     ActionsDAG.max_temporary_non_const_columns = 0\<rparr>"

text \<open>
  The nodes reachable from the required names through the children links.
\<close>

definition child_rel :: "Nodes \<Rightarrow> (node_ptr \<times> node_ptr) set" where
  "child_rel ns = {(p, c). \<exists>n. node_at ns p = Some n \<and> c \<in> set (children n)}"

definition required_ptrs :: "ActionsDAG \<Rightarrow> string list \<Rightarrow> node_ptr set" where
  "required_ptrs dag names = {p. \<exists>n \<in> set names. index dag n = Some p}"

definition reachable :: "ActionsDAG \<Rightarrow> string list \<Rightarrow> node_ptr set" where
  "reachable dag names = (child_rel (ActionsDAG.nodes dag))\<^sup>* `` required_ptrs dag names"

text \<open>
  Pointers that refer to nodes of the DAG: the children of every node, and the index
  entries of the required names.
\<close>

definition valid_children :: "ActionsDAG \<Rightarrow> bool" where
  "valid_children dag =
     list_all (\<lambda>(p, n). list_all (\<lambda>c. node_at (ActionsDAG.nodes dag) c \<noteq> None) (children n))
       (ActionsDAG.nodes dag)"

definition valid_required :: "ActionsDAG \<Rightarrow> string list \<Rightarrow> bool" where
  "valid_required dag names =
     list_all (\<lambda>n. case index dag n of None \<Rightarrow> False | Some p \<Rightarrow> node_at (ActionsDAG.nodes dag) p \<noteq> None) names"

text \<open>
  A DAG in which the name \<open>b\<close> is taken over by a second alias after \<open>c = plus(b, b)\<close> was
  built on the first.
\<close>

definition dag_of :: "exception + ActionsDAG \<times> node_ptr \<Rightarrow> ActionsDAG" where
  "dag_of r = (case r of Inr (dag, p) \<Rightarrow> dag | Inl e \<Rightarrow> empty_ActionsDAG)"

definition dag_renamed :: ActionsDAG where
  "dag_renamed = dag_of
     (then_add (then_add (then_add (addInput empty_ActionsDAG ''a'' (Some Int32))
        (\<lambda>dag. addAlias dag ''a'' ''b'' False))
        (\<lambda>dag. addFunction dag plus [''b'', ''b''] ''c'' no_limits))
        (\<lambda>dag. addAlias dag ''a'' ''b'' True))"

text \<open>
  The function \<open>negate\<close> of one argument; the chain \<open>a\<close>, \<open>b = negate(a)\<close>,
  \<open>c = negate(b)\<close> pruned to \<open>c\<close>; ten independent applications of \<open>negate\<close> to
  the input \<open>x\<close> under \<open>max_temporary_columns = 5\<close>; the program of the single input
  \<open>x\<close>; the array join of the spec's scenario, with its block.
\<close>

definition then_prune ::
  "exception + ActionsDAG \<times> node_ptr \<Rightarrow> string list \<Rightarrow> exception + ActionsDAG \<times> node_ptr" where
  "then_prune r names =
     bind_result r (\<lambda>(dag, p). bind_result (removeUnusedActions dag names) (\<lambda>dag'. Inr (dag', p)))"

fun field_negate :: "Field \<Rightarrow> Field" where
  "field_negate (Int64 a) = Int64 (- a)"
| "field_negate a = a"

definition negate_execute :: ExecutableFunction where
  "negate_execute args res_type n dry_run =
     (case args of
        [a] \<Rightarrow>
          (case ColumnWithTypeAndName.column a of
             Some (ColumnConst v s) \<Rightarrow> Inr (ColumnConst (field_negate v) n)
           | Some x \<Rightarrow> Inr (ColumnVector (map (\<lambda>i. field_negate (row_value x i)) [0..<n]))
           | None \<Rightarrow> Inl (Exception LOGICAL_ERROR ''argument column is nullptr''))
      | _ \<Rightarrow> Inl (Exception LOGICAL_ERROR ''negate needs one argument''))"

definition negate_base :: FunctionBase where
  "negate_base = \<lparr>getName = ''negate'', getArgumentTypes = [Int32], getResultType = Some Int32,
     isSuitableForConstantFolding = True, isDeterministic = True,
     getResultIfAlwaysReturnsConstantAndHasArguments = (\<lambda>args. None),
     prepare = (\<lambda>args. negate_execute)\<rparr>"

definition negate :: FunctionOverloadResolver where
  "negate = \<lparr>resolver_getName = ''negate'', build = (\<lambda>args. Inr negate_base)\<rparr>"

definition chain_a_b_c :: ExpressionActions where
  "chain_a_b_c = program_of
     (then_prune (then_add (then_add (addInput empty_ActionsDAG ''a'' (Some Int32))
        (\<lambda>dag. addFunction dag negate [''a''] ''b'' no_limits))
        (\<lambda>dag. addFunction dag negate [''b''] ''c'' no_limits)) [''c''])"

definition at_most_five :: Context where
  "at_most_five = no_limits\<lparr>settings_max_temporary_columns := 5\<rparr>"

fun add_functions :: "string list \<Rightarrow> exception + ActionsDAG \<times> node_ptr \<Rightarrow> exception + ActionsDAG \<times> node_ptr" where
  "add_functions [] r = r"
| "add_functions (n # ns) r = add_functions ns (then_add r (\<lambda>dag. addFunction dag negate [''x''] n at_most_five))"

definition ten_functions :: ActionsDAG where
  "ten_functions = dag_of
     (add_functions [''f0'', ''f1'', ''f2'', ''f3'', ''f4'', ''f5'', ''f6'', ''f7'', ''f8'', ''f9'']
        (addInput empty_ActionsDAG ''x'' (Some Int32)))"


definition identity_x :: ExpressionActions where
  "identity_x = program_of (addInput empty_ActionsDAG ''x'' (Some Int32))"


definition block_arr_tag :: Block where
  "block_arr_tag = insert_block (insert_block empty_Block
     \<lparr>ColumnWithTypeAndName.column = Some (ColumnArray [[Int64 1, Int64 2], [], [Int64 3]]),
      ColumnWithTypeAndName.type = Some (DataTypeArray Int32), name = ''arr''\<rparr>)
     \<lparr>ColumnWithTypeAndName.column = Some (ColumnVector [String ''x'', String ''y'', String ''z'']),
      ColumnWithTypeAndName.type = Some (DataType ''String''), name = ''tag''\<rparr>"

definition array_join_arr :: ExpressionActions where
  "array_join_arr = program_of
     (then_prune (then_add (then_add (addInput empty_ActionsDAG ''arr'' (Some (DataTypeArray Int32)))
        (\<lambda>dag. addInput dag ''tag'' (Some (DataType ''String''))))
        (\<lambda>dag. addArrayJoin dag ''arr'' ''e'' [])) [''e'', ''tag''])"



section \<open>Adding nodes\<close>

lemma fold_max_ge: "a \<le> fold max xs (a::nat)"
  by (induction xs arbitrary: a) (auto intro: order_trans[OF max.cobounded2])

lemma fold_max_mem: "x \<in> set xs \<Longrightarrow> x \<le> fold max xs (a::nat)"
proof (induction xs arbitrary: a)
  case Nil
  then show ?case by simp
next
  case (Cons y ys)
  show ?case
  proof (cases "x = y")
    case True
    have "max y a \<le> fold max ys (max y a)" by (rule fold_max_ge)
    with True show ?thesis by simp
  next
    case False
    with Cons show ?thesis by simp
  qed
qed

lemma new_ptr_fresh: "new_ptr ns \<notin> fst ` set ns"
proof
  assume "new_ptr ns \<in> fst ` set ns"
  then have "new_ptr ns \<in> set (map fst ns)" by simp
  then have "new_ptr ns \<le> fold max (map fst ns) 0" by (rule fold_max_mem)
  then show False by (simp add: new_ptr_def)
qed

lemma node_at_new_ptr: "node_at ns (new_ptr ns) = None"
  using new_ptr_fresh[of ns] by (simp add: node_at_def map_of_eq_None_iff)

lemma node_at_append:
  "node_at (ns @ [(q, n)]) p = (case node_at ns p of Some m \<Rightarrow> Some m | None \<Rightarrow> if p = q then Some n else None)"
  by (simp add: node_at_def map_add_def split: option.splits)

lemma node_at_set_renaming_parent:
  "node_at (set_renaming_parent ns p q) r =
     (if r = p then map_option (\<lambda>n. n\<lparr>renaming_parent := q\<rparr>) (node_at ns r) else node_at ns r)"
  by (induction ns) (auto simp: node_at_def set_renaming_parent_def)

lemma addNode_duplicate:
  "index dag (result_name nd) \<noteq> None \<Longrightarrow> fails_with (addNode dag nd False) DUPLICATE_COLUMN"
  by (simp add: addNode_def fails_with_def)

lemma addNode_replace:
  assumes "index dag (result_name nd) = Some old" and "node_at (ActionsDAG.nodes dag) old = Some displaced"
  shows "\<exists>dag'. addNode dag nd True = Inr (dag', new_ptr (ActionsDAG.nodes dag)) \<and>
           index dag' = (index dag)(result_name nd \<mapsto> new_ptr (ActionsDAG.nodes dag)) \<and>
           node_at (ActionsDAG.nodes dag') (new_ptr (ActionsDAG.nodes dag)) = Some nd \<and>
           node_at (ActionsDAG.nodes dag') old = Some (displaced\<lparr>renaming_parent := Some (new_ptr (ActionsDAG.nodes dag))\<rparr>)"
proof -
  from assms(2) have ne: "old \<noteq> new_ptr (ActionsDAG.nodes dag)"
    using node_at_new_ptr[of "ActionsDAG.nodes dag"] by auto
  with assms show ?thesis
    by (simp add: addNode_def Let_def node_at_append node_at_set_renaming_parent node_at_new_ptr)
qed

lemma getNodes_settings:
  "getNodes (dag\<lparr>max_temporary_columns := a, ActionsDAG.max_temporary_non_const_columns := b\<rparr>) ns = getNodes dag ns"
  by (induction ns) (simp_all add: getNode_def split: option.splits)

lemma addInput_duplicate:
  "index dag n \<noteq> None \<Longrightarrow> fails_with (addInput dag n t) DUPLICATE_COLUMN"
  by (simp add: addInput_def addNode_duplicate)

lemma addInputColumn_duplicate:
  "index dag (name c) \<noteq> None \<Longrightarrow> fails_with (addInputColumn dag c) DUPLICATE_COLUMN"
  by (simp add: addInputColumn_def addNode_duplicate)

lemma addColumn_duplicate:
  "index dag (name c) \<noteq> None \<Longrightarrow> ColumnWithTypeAndName.column c \<noteq> None \<Longrightarrow>
   fails_with (addColumn dag c) DUPLICATE_COLUMN"
  by (auto simp: addColumn_def intro: addNode_duplicate)

lemma addAlias_duplicate:
  "index dag alias \<noteq> None \<Longrightarrow> getNode dag src = Inr child \<Longrightarrow>
   fails_with (addAlias dag src alias False) DUPLICATE_COLUMN"
  by (cases child) (simp add: addAlias_def bind_result_def addNode_duplicate)

lemma addArrayJoin_duplicate:
  "index dag res \<noteq> None \<Longrightarrow> getNode dag src = Inr (p, child) \<Longrightarrow>
   Node.result_type child = Some (DataTypeArray nested) \<Longrightarrow>
   fails_with (addArrayJoin dag src res u) DUPLICATE_COLUMN"
  by (simp add: addArrayJoin_def bind_result_def addNode_duplicate)

lemma addFunction_duplicate:
  assumes "index dag (if res = [] then function_result_name (resolver_getName resolver) arg_names else res) \<noteq> None"
    and "getNodes dag arg_names = Inr found"
    and "build resolver (map (\<lambda>(p, child). argument_of child) found) = Inr base"
    and "fold_constants (list_all argument_is_const (map (\<lambda>(p, child). argument_of child) found))
           (USE_EMBEDDED_COMPILER context \<and> settings_compile_expressions context) base
           (prepare base (map (\<lambda>(p, child). argument_of child) found))
           (map (\<lambda>(p, child). argument_of child) found) = Inr folded"
  shows "fails_with (addFunction dag resolver arg_names res context) DUPLICATE_COLUMN"
  using assms
  by (simp add: addFunction_def Let_def bind_result_def getNodes_settings addNode_duplicate)

text \<open>
  C7. \<^verbatim>\<open>addNode\<close> fails with DUPLICATE_COLUMN whenever the index already has a node of the
  same result name and replacement is not permitted; so do \<^verbatim>\<open>addInput\<close>, \<^verbatim>\<open>addColumn\<close>,
  \<^verbatim>\<open>addAlias\<close> without replacement, \<^verbatim>\<open>addArrayJoin\<close> and \<^verbatim>\<open>addFunction\<close> once their own
  steps before \<^verbatim>\<open>addNode\<close> have succeeded. With \<open>can_replace = true\<close> and an existing name,
  the node is added, the index maps the name to the new node, and the renaming parent of
  the displaced node is the new node.
\<close>

theorem addNode_duplicate_column:
  "(index dag (Node.result_name nd) \<noteq> None \<longrightarrow> fails_with (addNode dag nd False) DUPLICATE_COLUMN)
   \<and> (index dag n \<noteq> None \<longrightarrow> fails_with (addInput dag n t) DUPLICATE_COLUMN)
   \<and> (index dag (name c) \<noteq> None \<longrightarrow> fails_with (addInputColumn dag c) DUPLICATE_COLUMN)
   \<and> (index dag (name c) \<noteq> None \<and> ColumnWithTypeAndName.column c \<noteq> None \<longrightarrow>
        fails_with (addColumn dag c) DUPLICATE_COLUMN)
   \<and> (index dag new_name \<noteq> None \<and> getNode dag src = Inr child \<longrightarrow>
        fails_with (addAlias dag src new_name False) DUPLICATE_COLUMN)
   \<and> (index dag res \<noteq> None \<and> getNode dag src' = Inr (p, child') \<and>
        Node.result_type child' = Some (DataTypeArray nested) \<longrightarrow>
        fails_with (addArrayJoin dag src' res u) DUPLICATE_COLUMN)
   \<and> (index dag (if fres = [] then function_result_name (resolver_getName resolver) arg_names else fres) \<noteq> None \<and>
        getNodes dag arg_names = Inr found \<and>
        build resolver (map (\<lambda>(p, child). argument_of child) found) = Inr base \<and>
        fold_constants (list_all argument_is_const (map (\<lambda>(p, child). argument_of child) found))
           (USE_EMBEDDED_COMPILER ctx \<and> settings_compile_expressions ctx) base
           (prepare base (map (\<lambda>(p, child). argument_of child) found))
           (map (\<lambda>(p, child). argument_of child) found) = Inr folded \<longrightarrow>
        fails_with (addFunction dag resolver arg_names fres ctx) DUPLICATE_COLUMN)
   \<and> (index dag (Node.result_name nd) = Some old \<and> node_at (ActionsDAG.nodes dag) old = Some displaced \<longrightarrow>
        (\<exists>dag'. addNode dag nd True = Inr (dag', new_ptr (ActionsDAG.nodes dag)) \<and>
           index dag' = (index dag)(Node.result_name nd \<mapsto> new_ptr (ActionsDAG.nodes dag)) \<and>
           node_at (ActionsDAG.nodes dag') (new_ptr (ActionsDAG.nodes dag)) = Some nd \<and>
           node_at (ActionsDAG.nodes dag') old =
             Some (displaced\<lparr>renaming_parent := Some (new_ptr (ActionsDAG.nodes dag))\<rparr>)))"
  by (intro conjI impI; (elim conjE)?;
      (rule addNode_duplicate addInput_duplicate addInputColumn_duplicate addColumn_duplicate
            addAlias_duplicate addArrayJoin_duplicate addFunction_duplicate addNode_replace;
       assumption))

lemma dag_x_arr_getNode:
  "getNode dag_x_arr ''x'' = Inr (1, input_x)" "getNode dag_x_arr ''arr'' = Inr (2, input_arr)"
  by (simp_all add: getNode_def dag_x_arr_def node_at_def)

theorem addNode_duplicate_column_witness:
  "index dag_x_arr ''x'' = Some 1 \<and> index dag_x_arr ''arr'' = Some 2
   \<and> fails_with (addNode dag_x_arr input_x False) DUPLICATE_COLUMN
   \<and> fails_with (addInput dag_x_arr ''x'' (Some Int32)) DUPLICATE_COLUMN
   \<and> fails_with (addInputColumn dag_x_arr const_x) DUPLICATE_COLUMN
   \<and> fails_with (addColumn dag_x_arr const_x) DUPLICATE_COLUMN
   \<and> fails_with (addAlias dag_x_arr ''x'' ''arr'' False) DUPLICATE_COLUMN
   \<and> fails_with (addArrayJoin dag_x_arr ''arr'' ''x'' []) DUPLICATE_COLUMN
   \<and> fails_with (addFunction dag_x_arr plus [''x'', ''x''] ''x'' no_limits) DUPLICATE_COLUMN
   \<and> (\<exists>dag'. addNode dag_x_arr input_x True = Inr (dag', 3) \<and>
          index dag' = (index dag_x_arr)(''x'' \<mapsto> 3) \<and>
          node_at (ActionsDAG.nodes dag') 3 = Some input_x \<and>
          node_at (ActionsDAG.nodes dag') 1 = Some (input_x\<lparr>renaming_parent := Some 3\<rparr>))"
proof -
  let ?found = "[(1::nat, input_x), (1, input_x)]"
  let ?args = "map (\<lambda>(p, child). argument_of child) ?found"
  have idx: "index dag_x_arr ''x'' = Some 1" "index dag_x_arr ''arr'' = Some 2"
    by (simp_all add: dag_x_arr_def)
  have nm: "Node.result_name input_x = ''x''" "name const_x = ''x''"
    by (simp_all add: input_x_def const_x_def new_Node_def)
  have h1: "index dag_x_arr (Node.result_name input_x) \<noteq> None" "index dag_x_arr ''x'' \<noteq> None"
    "index dag_x_arr (name const_x) \<noteq> None" "index dag_x_arr ''arr'' \<noteq> None"
    by (simp_all add: idx nm)
  have h2: "ColumnWithTypeAndName.column const_x \<noteq> None"
    by (simp add: const_x_def)
  have h3: "Node.result_type input_arr = Some (DataTypeArray Int32)"
    by (simp add: input_arr_def new_Node_def)
  have h4: "index dag_x_arr (if ''x'' = [] then function_result_name (resolver_getName plus) [''x'', ''x''] else ''x'') \<noteq> None"
    by (simp add: idx)
  have gn: "getNodes dag_x_arr [''x'', ''x''] = Inr ?found"
    by (simp add: dag_x_arr_getNode bind_result_def)
  have bd: "build plus ?args = Inr plus_base"
    by (simp add: plus_def)
  have fc: "fold_constants (list_all argument_is_const ?args)
           (USE_EMBEDDED_COMPILER no_limits \<and> settings_compile_expressions no_limits) plus_base
           (prepare plus_base ?args) ?args = Inr None"
    by (simp add: fold_constants_def argument_is_const_def argument_of_def input_x_def new_Node_def)
  have np: "new_ptr (ActionsDAG.nodes dag_x_arr) = 3"
    by (simp add: new_ptr_def dag_x_arr_def)
  have old: "index dag_x_arr (Node.result_name input_x) = Some 1"
    "node_at (ActionsDAG.nodes dag_x_arr) 1 = Some input_x"
    by (simp_all add: node_at_def dag_x_arr_def nm)
  note T = addNode_duplicate_column[where dag = dag_x_arr and nd = input_x and n = "''x''" and t = "Some Int32"
        and c = const_x and new_name = "''arr''" and src = "''x''" and child = "(1, input_x)"
        and res = "''x''" and src' = "''arr''" and p = 2 and child' = input_arr and nested = Int32 and u = "[]"
        and fres = "''x''" and resolver = plus and arg_names = "[''x'', ''x'']"
        and found = ?found and base = plus_base and ctx = no_limits
        and folded = None and old = 1 and displaced = input_x]
  have "fails_with (addNode dag_x_arr input_x False) DUPLICATE_COLUMN"
    and "fails_with (addInput dag_x_arr ''x'' (Some Int32)) DUPLICATE_COLUMN"
    and "fails_with (addInputColumn dag_x_arr const_x) DUPLICATE_COLUMN"
    and "fails_with (addColumn dag_x_arr const_x) DUPLICATE_COLUMN"
    and "fails_with (addAlias dag_x_arr ''x'' ''arr'' False) DUPLICATE_COLUMN"
    and "fails_with (addArrayJoin dag_x_arr ''arr'' ''x'' []) DUPLICATE_COLUMN"
    and "fails_with (addFunction dag_x_arr plus [''x'', ''x''] ''x'' no_limits) DUPLICATE_COLUMN"
    and "\<exists>dag'. addNode dag_x_arr input_x True = Inr (dag', new_ptr (ActionsDAG.nodes dag_x_arr)) \<and>
           index dag' = (index dag_x_arr)(Node.result_name input_x \<mapsto> new_ptr (ActionsDAG.nodes dag_x_arr)) \<and>
           node_at (ActionsDAG.nodes dag') (new_ptr (ActionsDAG.nodes dag_x_arr)) = Some input_x \<and>
           node_at (ActionsDAG.nodes dag') 1 =
             Some (input_x\<lparr>renaming_parent := Some (new_ptr (ActionsDAG.nodes dag_x_arr))\<rparr>)"
    using T h1 h2 h3 h4 gn bd fc old dag_x_arr_getNode by blast+
  then show ?thesis
    unfolding np nm using idx by blast
qed

section \<open>Resource limits\<close>

definition internal_error :: "exception \<Rightarrow> bool" where
  "internal_error e = (code e = INVALID_MEMORY_ACCESS \<or> code e = LOGICAL_ERROR)"

lemma internal_error_simps [simp]:
  "internal_error out_of_range" "internal_error invalid_pointer"
  "internal_error (Exception LOGICAL_ERROR m)"
  by (simp_all add: internal_error_def out_of_range_def invalid_pointer_def)

lemma add_parent_error:
  "add_parent ri p cs ds = Inl e \<Longrightarrow> internal_error e"
  by (induction cs arbitrary: ds) (auto simp: Let_def split: if_splits)

lemma count_children_error:
  "count_children idx ri ns ds = Inl e \<Longrightarrow> internal_error e"
proof (induction ns arbitrary: ds)
  case Nil
  then show ?case by simp
next
  case (Cons a ns)
  obtain p n where a: "a = (p, n)" by (cases a)
  from Cons.prems show ?case
    unfolding a
    by (auto simp: Let_def bind_result_def split: if_splits sum.splits option.splits
             dest: add_parent_error Cons.IH)
qed

lemma initial_ready_nodes_error:
  "initial_ready_nodes ri ds ns = Inl e \<Longrightarrow> internal_error e"
proof (induction ns)
  case Nil
  then show ?case by simp
next
  case (Cons a ns)
  obtain p n where a: "a = (p, n)" by (cases a)
  from Cons show ?case
    unfolding a by (auto simp: Let_def bind_result_def split: if_splits sum.splits)
qed

lemma update_parent_error:
  "update_parent ns ri p st = Inl e \<Longrightarrow> internal_error e"
  by (auto simp: update_parent_def Let_def split: prod.splits if_splits option.splits)

lemma update_parents_error:
  "update_parents ns ri ps st = Inl e \<Longrightarrow> internal_error e"
  by (induction ps arbitrary: st)
     (auto simp: bind_result_def split: sum.splits dest: update_parent_error)

lemma make_arguments_error:
  "make_arguments ns ri cs ds args = Inl e \<Longrightarrow> internal_error e"
  by (induction cs arbitrary: ds args) (auto simp: Let_def split: if_splits option.splits)

lemma pop_ready_error:
  "pop_ready rn raj = Inl e \<Longrightarrow> internal_error e"
  by (auto simp: pop_ready_def split: list.splits)

lemma bind_result_Inl:
  "bind_result r f = Inl e \<Longrightarrow> r = Inl e \<or> (\<exists>x. r = Inr x \<and> f x = Inl e)"
  by (auto simp: bind_result_def split: sum.splits)

lemma linearize_step_error:
  assumes "linearize_step ns ri st = Inl e"
  shows "internal_error e"
proof -
  obtain ds rn raj fp ex where st: "st = (ds, rn, raj, fp, ex)"
    by (cases st) auto
  show ?thesis
  proof (cases "pop_ready rn raj")
    case (Inl e')
    with assms st have "e' = e" by (simp add: linearize_step_def bind_result_def)
    with Inl show ?thesis by (auto dest: pop_ready_error)
  next
    case (Inr popped)
    obtain nd rn1 raj1 where popped: "popped = (nd, rn1, raj1)" by (cases popped) auto
    show ?thesis
    proof (cases "node_at ns nd")
      case None
      with assms st Inr popped show ?thesis
        by (simp add: linearize_step_def bind_result_def)
    next
      case (Some n)
      let ?i = "ri_at ri nd"
      obtain free_position fp1 ex1 where tp: "take_position fp ex = (free_position, fp1, ex1)"
        by (cases "take_position fp ex") auto
      let ?ds1 = "ds[?i := (ds ! ?i)\<lparr>position := int free_position\<rparr>]"
      show ?thesis
      proof (cases "list_all (\<lambda>child. node_at ns child \<noteq> None) (children n) \<and> ?i < length ds
                     \<and> Data.node (?ds1 ! ?i) \<noteq> None")
        case False
        then consider "\<not> list_all (\<lambda>child. node_at ns child \<noteq> None) (children n)"
          | "list_all (\<lambda>child. node_at ns child \<noteq> None) (children n)" "\<not> ?i < length ds"
          | "list_all (\<lambda>child. node_at ns child \<noteq> None) (children n)" "?i < length ds"
            "Data.node (?ds1 ! ?i) = None"
          by blast
        then show ?thesis
        proof cases
          case 1
          with assms st Inr popped Some show ?thesis
            by (simp add: linearize_step_def bind_result_def)
        next
          case 2
          with assms st Inr popped Some show ?thesis
            by (simp add: linearize_step_def bind_result_def Let_def)
        next
          case 3
          with assms st Inr popped Some tp show ?thesis
            by (simp add: linearize_step_def bind_result_def Let_def)
        qed
      next
        case True
        then obtain cur_ptr where cp: "Data.node (?ds1 ! ?i) = Some cur_ptr" by auto
        show ?thesis
        proof (cases "node_at ns cur_ptr")
          case None
          with assms st Inr popped Some tp True cp show ?thesis
            by (simp add: linearize_step_def bind_result_def Let_def)
        next
          case cn: (Some cur_node)
          show ?thesis
          proof (cases "make_arguments ns ri (children cur_node) ?ds1 []")
            case (Inl e')
            with assms st Inr popped Some tp True cp cn have "e' = e"
              by (simp add: linearize_step_def bind_result_def Let_def)
            with Inl show ?thesis by (auto dest: make_arguments_error)
          next
            case ma: (Inr made)
            obtain ds2 args where made: "made = (ds2, args)" by (cases made) auto
            from assms st Inr popped Some tp True cp cn ma made
            obtain ps where "update_parents ns ri ps (ds2, rn1, raj1) = Inl e"
              by (auto simp: linearize_step_def bind_result_def Let_def split: sum.splits)
            then show ?thesis by (rule update_parents_error)
          qed
        qed
      qed
    qed
  qed
qed

lemma linearize_loop_error:
  "linearize_loop ns ri st = Inl e \<Longrightarrow> internal_error e"
proof (induction ns ri st rule: linearize_loop.induct)
  case (1 ns ri st)
  from "1.prems" have unfolded:
    "(if queues_empty st then Inr st
      else case linearize_step ns ri st of Inl e \<Rightarrow> Inl e | Inr st' \<Rightarrow> linearize_loop ns ri st') = Inl e"
    by (subst (asm) linearize_loop.simps)
  show ?case
  proof (cases "queues_empty st")
    case True
    with unfolded show ?thesis by simp
  next
    case False
    show ?thesis
    proof (cases "linearize_step ns ri st")
      case (Inl e')
      with False unfolded have "e' = e" by simp
      with Inl show ?thesis by (auto dest: linearize_step_error)
    next
      case (Inr st')
      with False unfolded have "linearize_loop ns ri st' = Inl e" by simp
      with "1.IH"[OF False Inr] show ?thesis .
    qed
  qed
qed

lemma code_too_many_temporary_columns:
  "e = too_many_temporary_columns dag \<Longrightarrow> code e = TOO_MANY_TEMPORARY_COLUMNS"
  by (simp add: too_many_temporary_columns_def)

lemma buildExpressions_error:
  assumes "buildExpressions dag = Inl e"
  shows "internal_error e \<or> (max_temporary_columns dag \<noteq> 0 \<and> code e = TOO_MANY_TEMPORARY_COLUMNS)"
proof -
  let ?ns = "ActionsDAG.nodes dag"
  let ?numbered = "number_nodes ?ns (replicate (length ?ns) new_Data) Map.empty 0"
  show ?thesis
  proof (cases "count_children (index dag) (snd ?numbered) ?ns (fst ?numbered)")
    case (Inl e')
    with assms have "e' = e" by (simp add: buildExpressions_def Let_def bind_result_def)
    with Inl show ?thesis by (auto dest: count_children_error)
  next
    case cc: (Inr ds)
    show ?thesis
    proof (cases "initial_ready_nodes (snd ?numbered) ds ?ns")
      case (Inl e')
      with assms cc have "e' = e" by (simp add: buildExpressions_def Let_def bind_result_def)
      with Inl show ?thesis by (auto dest: initial_ready_nodes_error)
    next
      case rn: (Inr ready)
      show ?thesis
      proof (cases "linearize_loop ?ns (snd ?numbered) (ds, ready, [], [], new_ExpressionActions)")
        case (Inl e')
        with assms cc rn have "e' = e" by (simp add: buildExpressions_def Let_def bind_result_def)
        with Inl show ?thesis by (auto dest: linearize_loop_error)
      next
        case (Inr st)
        obtain ds' rn' raj' fp' ex' where st: "st = (ds', rn', raj', fp', ex')"
          by (cases st) auto
        from assms cc rn Inr st show ?thesis
          by (auto simp: buildExpressions_def Let_def bind_result_def too_many_temporary_columns_def
                   split: if_splits)
      qed
    qed
  qed
qed

lemma checkLimits_disabled:
  "ExpressionActions.max_temporary_non_const_columns expressions = 0 \<Longrightarrow> checkLimits expressions ctx = Inr ()"
  by (simp add: checkLimits_def)

text \<open>
  C10. A limit of zero disables its check: with \<open>max_temporary_columns = 0\<close>,
  \<^verbatim>\<open>buildExpressions\<close> never raises TOO_MANY_TEMPORARY_COLUMNS, whatever the number of
  slots; with the program's \<open>max_temporary_non_const_columns = 0\<close>, \<^verbatim>\<open>checkLimits\<close> never
  raises TOO_MANY_TEMPORARY_NON_CONST_COLUMNS, whatever the columns of the context.
\<close>

theorem zero_limit_disables_check:
  "(max_temporary_columns dag = 0 \<longrightarrow> \<not> fails_with (buildExpressions dag) TOO_MANY_TEMPORARY_COLUMNS)
   \<and> (ExpressionActions.max_temporary_non_const_columns expressions = 0 \<longrightarrow>
        \<not> fails_with (checkLimits expressions ctx) TOO_MANY_TEMPORARY_NON_CONST_COLUMNS)"
proof (intro conjI impI)
  assume z: "max_temporary_columns dag = 0"
  show "\<not> fails_with (buildExpressions dag) TOO_MANY_TEMPORARY_COLUMNS"
  proof (cases "buildExpressions dag")
    case (Inl e)
    from buildExpressions_error[OF Inl] z have "internal_error e" by simp
    with Inl show ?thesis by (auto simp: fails_with_def internal_error_def)
  next
    case (Inr r)
    then show ?thesis by (simp add: fails_with_def)
  qed
next
  assume "ExpressionActions.max_temporary_non_const_columns expressions = 0"
  then show "\<not> fails_with (checkLimits expressions ctx) TOO_MANY_TEMPORARY_NON_CONST_COLUMNS"
    by (simp add: checkLimits_disabled fails_with_def)
qed

theorem zero_limit_disables_check_witness:
  "max_temporary_columns dag_x = 0
   \<and> (case buildExpressions dag_x of Inr (e, d) \<Rightarrow> num_columns e = 1 | Inl e \<Rightarrow> False)
   \<and> \<not> fails_with (buildExpressions dag_x) TOO_MANY_TEMPORARY_COLUMNS
   \<and> ExpressionActions.max_temporary_non_const_columns new_ExpressionActions = 0
   \<and> length (filter is_non_const (columns context_x)) = 1
   \<and> \<not> fails_with (checkLimits new_ExpressionActions context_x) TOO_MANY_TEMPORARY_NON_CONST_COLUMNS"
proof -
  have 1: "max_temporary_columns dag_x = 0"
    by (simp add: dag_x_def)
  have 2: "ExpressionActions.max_temporary_non_const_columns new_ExpressionActions = 0"
    by (simp add: new_ExpressionActions_def)
  have 3: "case buildExpressions dag_x of Inr (e, d) \<Rightarrow> num_columns e = 1 | Inl e \<Rightarrow> False"
    by code_simp
  have 4: "length (filter is_non_const (columns context_x)) = 1"
    by (simp add: context_x_def block_x_def insert_block_def empty_Block_def is_non_const_def)
  from zero_limit_disables_check[of dag_x new_ExpressionActions context_x] 1 2 3 4
  show ?thesis by blast
qed

section \<open>checkColumnIsAlwaysFalse\<close>

lemma find_set_to_check_find:
  assumes "\<forall>a \<in> set xs. node_at ns (Action.node a) \<noteq> None"
  shows "find_set_to_check ns cn xs =
           (case find (is_in_function ns cn) xs of None \<Rightarrow> Inr [] | Some f \<Rightarrow> second_child_name ns f)"
  using assms by (induction xs) auto

lemma has_empty_set_ex:
  assumes "\<forall>a \<in> set xs. node_at ns (Action.node a) \<noteq> None"
  shows "has_empty_set ns s xs = Inr (\<exists>a \<in> set xs. is_empty_set_column ns s a)"
  using assms by (induction xs) auto

lemma find_snoc:
  "find P (xs @ [x]) = (case find P xs of Some y \<Rightarrow> Some y | None \<Rightarrow> if P x then Some x else None)"
  by (induction xs) auto

lemma find_rev_last:
  "find P (rev xs) = Some f \<longleftrightarrow> (\<exists>before after. xs = before @ f # after \<and> P f \<and> (\<forall>a \<in> set after. \<not> P a))"
proof (induction xs)
  case Nil
  then show ?case by simp
next
  case (Cons x xs)
  have "find P (rev (x # xs)) = Some f \<longleftrightarrow>
        find P (rev xs) = Some f \<or> (find P (rev xs) = None \<and> P x \<and> f = x)"
    by (auto simp: find_snoc split: option.splits)
  also have "\<dots> \<longleftrightarrow> (\<exists>before after. xs = before @ f # after \<and> P f \<and> (\<forall>a \<in> set after. \<not> P a))
                  \<or> ((\<forall>a \<in> set xs. \<not> P a) \<and> P x \<and> f = x)"
    by (auto simp: Cons.IH find_None_iff)
  also have "\<dots> \<longleftrightarrow> (\<exists>before after. x # xs = before @ f # after \<and> P f \<and> (\<forall>a \<in> set after. \<not> P a))"
  proof
    assume "(\<exists>before after. xs = before @ f # after \<and> P f \<and> (\<forall>a \<in> set after. \<not> P a))
             \<or> ((\<forall>a \<in> set xs. \<not> P a) \<and> P x \<and> f = x)"
    then show "\<exists>before after. x # xs = before @ f # after \<and> P f \<and> (\<forall>a \<in> set after. \<not> P a)"
    proof
      assume "\<exists>before after. xs = before @ f # after \<and> P f \<and> (\<forall>a \<in> set after. \<not> P a)"
      then obtain before after where "xs = before @ f # after" "P f" "\<forall>a \<in> set after. \<not> P a"
        by blast
      then have "x # xs = (x # before) @ f # after \<and> P f \<and> (\<forall>a \<in> set after. \<not> P a)" by simp
      then show ?thesis by blast
    next
      assume "(\<forall>a \<in> set xs. \<not> P a) \<and> P x \<and> f = x"
      then have "x # xs = [] @ f # xs \<and> P f \<and> (\<forall>a \<in> set xs. \<not> P a)" by simp
      then show ?thesis by blast
    qed
  next
    assume "\<exists>before after. x # xs = before @ f # after \<and> P f \<and> (\<forall>a \<in> set after. \<not> P a)"
    then obtain before after where d: "x # xs = before @ f # after" "P f" "\<forall>a \<in> set after. \<not> P a"
      by blast
    show "(\<exists>before after. xs = before @ f # after \<and> P f \<and> (\<forall>a \<in> set after. \<not> P a))
             \<or> ((\<forall>a \<in> set xs. \<not> P a) \<and> P x \<and> f = x)"
    proof (cases before)
      case Nil
      with d show ?thesis by auto
    next
      case (Cons b bs)
      with d have "xs = bs @ f # after" by simp
      with d show ?thesis by blast
    qed
  qed
  finally show ?case .
qed

lemma second_child_name_valid:
  assumes "node_at ns (Action.node f) = Some n"
    and "list_all (\<lambda>child. node_at ns child \<noteq> None) (children n)"
    and "length (children n) > 1"
  shows "\<exists>c. node_at ns (children n ! 1) = Some c \<and> second_child_name ns f = Inr (Node.result_name c)"
proof -
  from assms(2,3) have "node_at ns (children n ! 1) \<noteq> None"
    by (simp add: list_all_length)
  then obtain c where "node_at ns (children n ! 1) = Some c" by auto
  with assms show ?thesis by (simp add: second_child_name_def)
qed

text \<open>
  What the two loops compute. On a program whose pointers are valid,
  \<open>checkColumnIsAlwaysFalse(name)\<close> returns, and it returns true iff the last action that
  is a FUNCTION of that name with more than one child and the function \<open>in\<close> or
  \<open>globalIn\<close> has a second child whose result name is not empty and is the result name of
  some COLUMN action that carries a fully constructed, empty set. Of the second child
  only the name is kept: the COLUMN action found by the second loop need not be that
  child.
\<close>

lemma checkColumnIsAlwaysFalse_looks_up_name:
  assumes "valid_pointers expressions"
  shows "(\<exists>b. checkColumnIsAlwaysFalse expressions column_name = Inr b)
    \<and> (checkColumnIsAlwaysFalse expressions column_name = Inr True \<longleftrightarrow>
         (\<exists>before f after n c.
            actions expressions = before @ f # after \<and>
            is_in_function (ExpressionActions.nodes expressions) column_name f \<and>
            (\<forall>a \<in> set after. \<not> is_in_function (ExpressionActions.nodes expressions) column_name a) \<and>
            node_at (ExpressionActions.nodes expressions) (Action.node f) = Some n \<and>
            node_at (ExpressionActions.nodes expressions) (children n ! 1) = Some c \<and>
            Node.result_name c \<noteq> [] \<and>
            (\<exists>a \<in> set (actions expressions).
               is_empty_set_column (ExpressionActions.nodes expressions) (Node.result_name c) a)))"
proof -
  let ?ns = "ExpressionActions.nodes expressions"
  let ?acts = "actions expressions"
  let ?P = "is_in_function ?ns column_name"
  from assms have valid: "\<forall>a \<in> set ?acts. node_at ?ns (Action.node a) \<noteq> None"
    by (auto simp: valid_pointers_def list_all_iff split: option.splits)
  then have valid_rev: "\<forall>a \<in> set (rev ?acts). node_at ?ns (Action.node a) \<noteq> None"
    by simp
  have children_valid:
    "list_all (\<lambda>child. node_at ?ns child \<noteq> None) (children n)"
    if "a \<in> set ?acts" "node_at ?ns (Action.node a) = Some n" for a n
    using assms that by (auto simp: valid_pointers_def list_all_iff split: option.splits)
  note fs = find_set_to_check_find[OF valid_rev, of column_name]
  note he = has_empty_set_ex[OF valid]
  show ?thesis
  proof (cases "find ?P (rev ?acts)")
    case None
    then have no: "\<forall>a \<in> set ?acts. \<not> ?P a"
      by (simp add: find_None_iff)
    from None fs have "checkColumnIsAlwaysFalse expressions column_name = Inr False"
      by (simp add: checkColumnIsAlwaysFalse_def bind_result_def)
    with no show ?thesis by auto
  next
    case (Some f)
    then obtain before after where split: "?acts = before @ f # after" "?P f" "\<forall>a \<in> set after. \<not> ?P a"
      by (auto simp: find_rev_last)
    from split(2) obtain n where n: "node_at ?ns (Action.node f) = Some n" "length (children n) > 1"
      by (auto simp: is_in_function_def split: option.splits)
    from split(1) have "f \<in> set ?acts" by simp
    from second_child_name_valid[OF n(1) children_valid[OF this n(1)] n(2)]
    obtain c where c: "node_at ?ns (children n ! 1) = Some c" "second_child_name ?ns f = Inr (Node.result_name c)"
      by blast
    have val: "checkColumnIsAlwaysFalse expressions column_name =
        Inr (Node.result_name c \<noteq> [] \<and> (\<exists>a \<in> set ?acts. is_empty_set_column ?ns (Node.result_name c) a))"
      using Some fs c(2) he by (simp add: checkColumnIsAlwaysFalse_def bind_result_def)
    have unique: "f' = f"
      if "?acts = before' @ f' # after'" "?P f'" "\<forall>a \<in> set after'. \<not> ?P a" for before' f' after'
    proof -
      from that have "find ?P (rev ?acts) = Some f'"
        unfolding find_rev_last by blast
      with Some show ?thesis by simp
    qed
    show ?thesis
    proof (intro conjI)
      show "\<exists>b. checkColumnIsAlwaysFalse expressions column_name = Inr b"
        using val by blast
      show "checkColumnIsAlwaysFalse expressions column_name = Inr True \<longleftrightarrow>
         (\<exists>before f after n c.
            ?acts = before @ f # after \<and> ?P f \<and> (\<forall>a \<in> set after. \<not> ?P a) \<and>
            node_at ?ns (Action.node f) = Some n \<and>
            node_at ?ns (children n ! 1) = Some c \<and>
            Node.result_name c \<noteq> [] \<and>
            (\<exists>a \<in> set ?acts. is_empty_set_column ?ns (Node.result_name c) a))"
        (is "?lhs \<longleftrightarrow> ?rhs")
      proof
        assume ?lhs
        with val have "Node.result_name c \<noteq> [] \<and> (\<exists>a \<in> set ?acts. is_empty_set_column ?ns (Node.result_name c) a)"
          by simp
        with split n c show ?rhs by blast
      next
        assume ?rhs
        then obtain before' f' after' n' c' where r:
          "?acts = before' @ f' # after'" "?P f'" "\<forall>a \<in> set after'. \<not> ?P a"
          "node_at ?ns (Action.node f') = Some n'" "node_at ?ns (children n' ! 1) = Some c'"
          "Node.result_name c' \<noteq> []"
          "\<exists>a \<in> set ?acts. is_empty_set_column ?ns (Node.result_name c') a"
          by blast
        from unique[OF r(1,2,3)] have "f' = f" .
        with r(4) n(1) have "n' = n" by simp
        with r(5) c(1) have "c' = c" by simp
        with r(6,7) val show ?lhs by simp
      qed
    qed
  qed
qed


text \<open>The program of \<open>in(k, s)\<close> over the empty set \<open>s\<close>: the answer is true.\<close>

lemma checkColumnIsAlwaysFalse_empty_set:
  "valid_pointers in_empty_set
   \<and> spec_column_is_always_false in_empty_set ''in(k, s)''
   \<and> checkColumnIsAlwaysFalse in_empty_set ''in(k, s)'' = Inr True
   \<and> (\<exists>before f after n c.
         actions in_empty_set = before @ f # after \<and>
         is_in_function (ExpressionActions.nodes in_empty_set) ''in(k, s)'' f \<and>
         (\<forall>a \<in> set after. \<not> is_in_function (ExpressionActions.nodes in_empty_set) ''in(k, s)'' a) \<and>
         node_at (ExpressionActions.nodes in_empty_set) (Action.node f) = Some n \<and>
         node_at (ExpressionActions.nodes in_empty_set) (children n ! 1) = Some c \<and>
         Node.result_name c \<noteq> [] \<and>
         (\<exists>a \<in> set (actions in_empty_set).
            is_empty_set_column (ExpressionActions.nodes in_empty_set) (Node.result_name c) a))"
proof -
  have v: "valid_pointers in_empty_set"
    by code_simp
  have s: "spec_column_is_always_false in_empty_set ''in(k, s)''"
    by code_simp
  have t: "checkColumnIsAlwaysFalse in_empty_set ''in(k, s)'' = Inr True"
    by code_simp
  from checkColumnIsAlwaysFalse_looks_up_name[OF v, of "''in(k, s)''"] v s t show ?thesis
    by blast
qed

text \<open>
  The program where an alias of \<open>k\<close> took over the name \<open>s\<close> of the empty set: the second
  child of \<open>in\<close> is the ALIAS node, which is not a set at all, and the answer is true.
\<close>

lemma checkColumnIsAlwaysFalse_alias_of_name:
  "checkColumnIsAlwaysFalse in_alias ''r'' = Inr True \<and> \<not> spec_column_is_always_false in_alias ''r''"
  by code_simp

text \<open>
  C9. \<^verbatim>\<open>checkColumnIsAlwaysFalse\<close> does not look at the second child of \<open>in\<close>, it looks for a
  COLUMN action that has the name of that child. In the program built by
  \<open>addInput(k)\<close>, \<open>addColumn(s)\<close> with an empty set, \<open>addColumn(t)\<close> with a set of three
  rows, \<open>addAlias(t, s, can_replace = true)\<close> and \<open>r = in(k, s)\<close>, the column \<open>r\<close> has one
  right-hand side, an ALIAS node that carries the set of three rows. It is not a COLUMN
  node with an empty set, and \<open>r\<close> is not a column \<open>in (empty set)\<close>; the answer is true,
  because the displaced COLUMN node \<open>s\<close> is still an action of the program.
\<close>

theorem checkColumnIsAlwaysFalse_shadowed_name:
  "checkColumnIsAlwaysFalse in_shadowed ''r'' = Inr True
   \<and> right_hand_sides in_shadowed ''r''
       = [(ALIAS, Some (ColumnSet 1 \<lparr>isCreated = True, getTotalRowCount = 3\<rparr>))]
   \<and> \<not> spec_column_is_always_false in_shadowed ''r''"
  by code_simp

section \<open>Constant folding in addFunction\<close>

lemma constant_folding_num_rows_const:
  "list_all argument_is_const args \<Longrightarrow> constant_folding_num_rows args = Inr (first_argument_rows args)"
  by (cases args)
     (auto simp: constant_folding_num_rows_def first_argument_rows_def argument_is_const_def
           split: option.splits)

lemma addNode_new:
  "index dag (Node.result_name nd) = None \<Longrightarrow>
   addNode dag nd False =
     Inr (dag\<lparr>ActionsDAG.nodes := ActionsDAG.nodes dag @ [(new_ptr (ActionsDAG.nodes dag), nd)],
              index := (index dag)(Node.result_name nd \<mapsto> new_ptr (ActionsDAG.nodes dag))\<rparr>,
          new_ptr (ActionsDAG.nodes dag))"
  by (simp add: addNode_def Let_def)

text \<open>
  C2, with the row count of the code. In \<^verbatim>\<open>addFunction\<close>, whenever every argument has a materialized constant
  column, the function base is suitable for constant folding, and compilation is disabled
  or the function is deterministic, the function is executed with \<open>dry_run = true\<close> at the
  row count of its first argument (0 without arguments); if the result is a constant
  column it becomes the column of the new node, resized to one row when it is empty.
\<close>

theorem addFunction_folds_constants:
  assumes found: "getNodes dag arg_names = Inr found"
    and args: "args = map (\<lambda>(p, child). argument_of child) found"
    and base: "build resolver args = Inr base"
    and all_const: "list_all argument_is_const args"
    and suitable: "isSuitableForConstantFolding base"
    and compile: "\<not> (USE_EMBEDDED_COMPILER ctx \<and> settings_compile_expressions ctx) \<or> isDeterministic base"
    and executed: "prepare base args args (getResultType base) (first_argument_rows args) True = Inr col"
    and const: "isColumnConst col"
    and fresh: "index dag (if res = [] then function_result_name (resolver_getName resolver) arg_names else res) = None"
  shows "\<exists>dag' n. addFunction dag resolver arg_names res ctx = Inr (dag', new_ptr (ActionsDAG.nodes dag))
           \<and> node_at (ActionsDAG.nodes dag') (new_ptr (ActionsDAG.nodes dag)) = Some n
           \<and> Node.type n = FUNCTION
           \<and> Node.column n = Some (if empty_column col then cloneResized col 1 else col)"
proof -
  let ?compile = "USE_EMBEDDED_COMPILER ctx \<and> settings_compile_expressions ctx"
  have folded: "fold_constants (list_all argument_is_const args) ?compile base (prepare base args) args
                  = Inr (Some (if empty_column col then cloneResized col 1 else col))"
    using all_const suitable compile executed const
    by (auto simp: fold_constants_def bind_result_def constant_folding_num_rows_const)
  let ?node = "new_Node\<lparr>Node.type := FUNCTION,
                         function_builder := Some resolver,
                         children := map fst found,
                         Node.function_base := Some base,
                         Node.result_type := getResultType base,
                         executable_function := Some (prepare base args),
                         Node.column := Some (if empty_column col then cloneResized col 1 else col),
                         allow_constant_folding := list_all (\<lambda>(p, child). allow_constant_folding child) found,
                         Node.result_name := (if res = []
                                         then function_result_name (resolver_getName resolver) arg_names
                                         else res)\<rparr>"
  let ?dag = "dag\<lparr>max_temporary_columns := settings_max_temporary_columns ctx,
                     ActionsDAG.max_temporary_non_const_columns := settings_max_temporary_non_const_columns ctx\<rparr>"
  have add: "addFunction dag resolver arg_names res ctx = addNode ?dag ?node False"
    using found base folded unfolding args
    by (simp add: addFunction_def Let_def bind_result_def getNodes_settings)
  have "index ?dag (Node.result_name ?node) = None"
    using fresh by simp
  from addNode_new[OF this] add node_at_new_ptr[of "ActionsDAG.nodes dag"]
  show ?thesis
    by (simp add: node_at_append)
qed


text \<open>
  C2 does not hold as worded: the row count of the evaluation is not 1 but the size of the first
  argument's column, and 0 for a function without arguments. The function \<open>rowsSeen\<close>
  gives the constant 1 at one row; the node gets the constant 0.
\<close>

theorem addFunction_folds_at_zero_rows:
  "prepare rows_seen_base [] [] (Some Int32) 1 True = Inr (ColumnConst (Int64 1) 1)
   \<and> (case addFunction empty_ActionsDAG rows_seen [] ''c'' no_limits of
        Inr (dag', p) \<Rightarrow>
          map_option Node.column (node_at (ActionsDAG.nodes dag') p) = Some (Some (ColumnConst (Int64 0) 1))
      | Inl e \<Rightarrow> False)"
  by code_simp

theorem addFunction_folds_constants_witness:
  "getNodes dag_constants [''ten'', ''one''] = Inr [(1, column_ten), (2, column_one)]
   \<and> list_all argument_is_const [argument_of column_ten, argument_of column_one]
   \<and> first_argument_rows [argument_of column_ten, argument_of column_one] = 1
   \<and> (\<exists>dag' n. addFunction dag_constants plus [''ten'', ''one''] ''y'' no_limits = Inr (dag', 3)
         \<and> node_at (ActionsDAG.nodes dag') 3 = Some n
         \<and> Node.type n = FUNCTION
         \<and> Node.column n = Some (ColumnConst (Int64 11) 1))"
proof -
  let ?found = "[(1::nat, column_ten), (2, column_one)]"
  let ?args = "[argument_of column_ten, argument_of column_one]"
  let ?col = "ColumnConst (Int64 11) 1"
  have found: "getNodes dag_constants [''ten'', ''one''] = Inr ?found"
    by (simp add: getNode_def dag_constants_def node_at_def bind_result_def)
  have args: "?args = map (\<lambda>(p, child). argument_of child) ?found"
    by simp
  have base: "build plus ?args = Inr plus_base"
    by (simp add: plus_def)
  have all_const: "list_all argument_is_const ?args"
    by (simp add: argument_is_const_def argument_of_def column_ten_def column_one_def)
  have suitable: "isSuitableForConstantFolding plus_base"
    by (simp add: plus_base_def)
  have compile: "\<not> (USE_EMBEDDED_COMPILER no_limits \<and> settings_compile_expressions no_limits) \<or> isDeterministic plus_base"
    by (simp add: no_limits_def)
  have rows: "first_argument_rows ?args = 1"
    by (simp add: first_argument_rows_def argument_of_def column_ten_def)
  have executed: "prepare plus_base ?args ?args (getResultType plus_base) (first_argument_rows ?args) True = Inr ?col"
    unfolding rows
    by (simp add: plus_base_def plus_execute_def argument_of_def column_ten_def column_one_def)
  have const: "isColumnConst ?col"
    by simp
  have fresh: "index dag_constants (if ''y'' = [] then function_result_name (resolver_getName plus) [''ten'', ''one''] else ''y'') = None"
    by (simp add: dag_constants_def)
  have np: "new_ptr (ActionsDAG.nodes dag_constants) = 3"
    by (simp add: new_ptr_def dag_constants_def)
  have ne: "(if empty_column ?col then cloneResized ?col 1 else ?col) = ?col"
    by (simp add: empty_column_def)
  from addFunction_folds_constants[OF found args base all_const suitable compile executed const fresh]
  have "\<exists>dag' n. addFunction dag_constants plus [''ten'', ''one''] ''y'' no_limits = Inr (dag', 3)
         \<and> node_at (ActionsDAG.nodes dag') 3 = Some n
         \<and> Node.type n = FUNCTION
         \<and> Node.column n = Some ?col"
    unfolding np ne .
  with found all_const rows show ?thesis by blast
qed

section \<open>removeUnusedActions\<close>

lemma required_nodes_unknown:
  "\<exists>n \<in> set names. index dag n = None \<Longrightarrow>
   fails_with (required_nodes dag names new_index v s) UNKNOWN_IDENTIFIER"
  by (induction names arbitrary: new_index v s) (auto simp: fails_with_def split: option.splits)

lemma required_nodes_known:
  "\<forall>n \<in> set names. index dag n \<noteq> None \<Longrightarrow>
   \<exists>stack. required_nodes dag names new_index v s =
       Inr (\<lambda>n. if n \<in> set names then index dag n else new_index n, v \<union> required_ptrs dag names, stack)
     \<and> set stack = set s \<union> required_ptrs dag names"
proof (induction names arbitrary: new_index v s)
  case Nil
  then show ?case by (simp add: required_ptrs_def)
next
  case (Cons a names)
  from Cons.prems obtain p where p: "index dag a = Some p" by auto
  from Cons.prems have "\<forall>n \<in> set names. index dag n \<noteq> None" by simp
  from Cons.IH[OF this, of "new_index(a \<mapsto> p)" "insert p v" "p # s"]
  obtain stack where st:
    "required_nodes dag names (new_index(a \<mapsto> p)) (insert p v) (p # s) =
       Inr (\<lambda>n. if n \<in> set names then index dag n else (new_index(a \<mapsto> p)) n,
            insert p v \<union> required_ptrs dag names, stack)"
    "set stack = set (p # s) \<union> required_ptrs dag names"
    by blast
  have ptrs: "required_ptrs dag (a # names) = insert p (required_ptrs dag names)"
    using p by (auto simp: required_ptrs_def)
  have idx: "(\<lambda>n. if n \<in> set names then index dag n else (new_index(a \<mapsto> p)) n)
           = (\<lambda>n. if n \<in> set (a # names) then index dag n else new_index n)"
    using p by auto
  from st p show ?case
    unfolding ptrs idx[symmetric] by auto
qed

lemma visit_children_stack_set:
  "set (snd (visit_children cs v s)) = set s \<union> (set cs - v)"
  by (induction cs arbitrary: v s) auto

lemma visit_nodes_reachable:
  assumes "set stack \<subseteq> visited"
    and "\<forall>p \<in> visited - set stack. \<forall>c. (p, c) \<in> child_rel ns \<longrightarrow> c \<in> visited"
    and "\<forall>p \<in> (child_rel ns)\<^sup>* `` visited. node_at ns p \<noteq> None"
  shows "visit_nodes ns visited stack = Inr ((child_rel ns)\<^sup>* `` visited)"
  using assms
proof (induction ns visited stack rule: visit_nodes.induct)
  case (1 ns visited)
  have "(child_rel ns)\<^sup>* `` visited = visited"
  proof
    show "(child_rel ns)\<^sup>* `` visited \<subseteq> visited"
    proof
      fix q assume "q \<in> (child_rel ns)\<^sup>* `` visited"
      then obtain p where "p \<in> visited" "(p, q) \<in> (child_rel ns)\<^sup>*" by auto
      from this(2,1) show "q \<in> visited"
        by (induction rule: rtrancl_induct) (use "1.prems"(2) in auto)
    qed
    show "visited \<subseteq> (child_rel ns)\<^sup>* `` visited" by auto
  qed
  then show ?case by simp
next
  case (2 ns visited nd stack)
  let ?R = "(child_rel ns)\<^sup>* `` visited"
  from "2.prems"(1) have nd: "nd \<in> visited" by simp
  then have "nd \<in> ?R" by auto
  with "2.prems"(3) obtain n where n: "node_at ns nd = Some n" by auto
  let ?v = "fst (visit_children (children n) visited stack)"
  let ?s = "snd (visit_children (children n) visited stack)"
  have v: "?v = visited \<union> set (children n)" by (rule visit_children_visited)
  have s: "set ?s = set stack \<union> (set (children n) - visited)" by (rule visit_children_stack_set)
  have ch: "set (children n) \<subseteq> ?R"
  proof
    fix c assume "c \<in> set (children n)"
    with n have "(nd, c) \<in> child_rel ns" by (auto simp: child_rel_def)
    with nd show "c \<in> ?R" by auto
  qed
  have R: "(child_rel ns)\<^sup>* `` ?v = ?R"
  proof
    show "(child_rel ns)\<^sup>* `` ?v \<subseteq> ?R"
    proof
      fix q assume "q \<in> (child_rel ns)\<^sup>* `` ?v"
      then obtain p where p: "p \<in> ?v" "(p, q) \<in> (child_rel ns)\<^sup>*" by auto
      from p(1) v ch have "p \<in> ?R" by auto
      then obtain r where "r \<in> visited" "(r, p) \<in> (child_rel ns)\<^sup>*" by auto
      with p(2) show "q \<in> ?R" by (auto intro: rtrancl_trans)
    qed
    show "?R \<subseteq> (child_rel ns)\<^sup>* `` ?v" using v by auto
  qed
  have a1: "set ?s \<subseteq> ?v" using "2.prems"(1) v s by auto
  have a2: "\<forall>p \<in> ?v - set ?s. \<forall>c. (p, c) \<in> child_rel ns \<longrightarrow> c \<in> ?v"
  proof (intro ballI allI impI)
    fix p c assume p: "p \<in> ?v - set ?s" and c: "(p, c) \<in> child_rel ns"
    from p v s have pv: "p \<in> visited" "p \<notin> set stack" by auto
    show "c \<in> ?v"
    proof (cases "p = nd")
      case True
      with c n have "c \<in> set (children n)" by (auto simp: child_rel_def)
      with v show ?thesis by simp
    next
      case False
      with pv have "p \<in> visited - set (nd # stack)" by simp
      with "2.prems"(2) c have "c \<in> visited" by blast
      with v show ?thesis by simp
    qed
  qed
  have a3: "\<forall>p \<in> (child_rel ns)\<^sup>* `` ?v. node_at ns p \<noteq> None"
    using "2.prems"(3) R by simp
  from "2.IH"[OF n a1 a2 a3] n R show ?case by simp
qed


lemma reachable_valid:
  assumes "valid_children dag" and "valid_required dag names" and "p \<in> reachable dag names"
  shows "node_at (ActionsDAG.nodes dag) p \<noteq> None"
proof -
  from assms(3) obtain r where r: "r \<in> required_ptrs dag names"
    "(r, p) \<in> (child_rel (ActionsDAG.nodes dag))\<^sup>*"
    by (auto simp: reachable_def)
  from r(2) show ?thesis
  proof (induction rule: rtrancl_induct)
    case base
    from r(1) assms(2) show ?case
      by (auto simp: required_ptrs_def valid_required_def list_all_iff split: option.splits)
  next
    case (step q c)
    then obtain n where n: "node_at (ActionsDAG.nodes dag) q = Some n" "c \<in> set (children n)"
      by (auto simp: child_rel_def)
    then have "(q, n) \<in> set (ActionsDAG.nodes dag)"
      by (auto simp: node_at_def dest: map_of_SomeD)
    with assms(1) n(2) show ?case
      by (auto simp: valid_children_def list_all_iff)
  qed
qed

lemma clear_renaming_parent_if:
  "clear_renaming_parent R n =
     (if \<exists>rp. renaming_parent n = Some rp \<and> rp \<notin> R then n\<lparr>renaming_parent := None\<rparr> else n)"
  by (auto simp: clear_renaming_parent_def split: option.splits)

text \<open>
  C5. \<^verbatim>\<open>removeUnusedActions(required_names)\<close> raises UNKNOWN_IDENTIFIER if a required name
  is absent from the index. Otherwise (on a DAG whose pointers refer to its nodes) it
  keeps exactly the nodes reachable from the required names through children links, in
  their order, the new index maps exactly the required names, to the nodes they had, and
  the renaming parent of a surviving node is cleared when that parent was not kept.
\<close>

theorem removeUnusedActions_reachable:
  "((\<exists>n \<in> set names. index dag n = None) \<longrightarrow>
      fails_with (removeUnusedActions dag names) UNKNOWN_IDENTIFIER)
   \<and> (valid_children dag \<and> valid_required dag names \<longrightarrow>
      (\<exists>dag'. removeUnusedActions dag names = Inr dag'
         \<and> ActionsDAG.nodes dag' =
             map (\<lambda>(p, n). (p, if \<exists>rp. renaming_parent n = Some rp \<and> rp \<notin> reachable dag names
                                then n\<lparr>renaming_parent := None\<rparr> else n))
               (filter (\<lambda>(p, n). p \<in> reachable dag names) (ActionsDAG.nodes dag))
         \<and> index dag' = (\<lambda>n. if n \<in> set names then index dag n else None)))"
proof (intro conjI impI)
  assume "\<exists>n \<in> set names. index dag n = None"
  from required_nodes_unknown[OF this, of Map.empty "{}" "[]"]
  show "fails_with (removeUnusedActions dag names) UNKNOWN_IDENTIFIER"
    by (auto simp: removeUnusedActions_def bind_result_def fails_with_def split: sum.splits)
next
  assume valid: "valid_children dag \<and> valid_required dag names"
  let ?ns = "ActionsDAG.nodes dag"
  let ?R = "reachable dag names"
  from valid have "\<forall>n \<in> set names. index dag n \<noteq> None"
    by (auto simp: valid_required_def list_all_iff split: option.splits)
  from required_nodes_known[OF this, of Map.empty "{}" "[]"]
  obtain stack where req:
    "required_nodes dag names Map.empty {} [] =
       Inr (\<lambda>n. if n \<in> set names then index dag n else None, required_ptrs dag names, stack)"
    "set stack = required_ptrs dag names"
    by auto
  have "visit_nodes ?ns (required_ptrs dag names) stack = Inr ((child_rel ?ns)\<^sup>* `` required_ptrs dag names)"
  proof (rule visit_nodes_reachable)
    show "set stack \<subseteq> required_ptrs dag names" using req(2) by simp
    show "\<forall>p \<in> required_ptrs dag names - set stack. \<forall>c. (p, c) \<in> child_rel ?ns \<longrightarrow> c \<in> required_ptrs dag names"
      using req(2) by simp
    show "\<forall>p \<in> (child_rel ?ns)\<^sup>* `` required_ptrs dag names. node_at ?ns p \<noteq> None"
      using valid reachable_valid[of dag names] by (simp add: reachable_def)
  qed
  then have visit: "visit_nodes ?ns (required_ptrs dag names) stack = Inr ?R"
    by (simp add: reachable_def)
  have clear: "(\<lambda>(p, n). (p, clear_renaming_parent ?R n))
             = (\<lambda>(p, n). (p, if \<exists>rp. renaming_parent n = Some rp \<and> rp \<notin> ?R
                                then n\<lparr>renaming_parent := None\<rparr> else n))"
    by (simp add: clear_renaming_parent_if)
  show "\<exists>dag'. removeUnusedActions dag names = Inr dag'
         \<and> ActionsDAG.nodes dag' =
             map (\<lambda>(p, n). (p, if \<exists>rp. renaming_parent n = Some rp \<and> rp \<notin> ?R
                                then n\<lparr>renaming_parent := None\<rparr> else n))
               (filter (\<lambda>(p, n). p \<in> ?R) ?ns)
         \<and> index dag' = (\<lambda>n. if n \<in> set names then index dag n else None)"
    using req(1) visit unfolding clear[symmetric]
    by (simp add: removeUnusedActions_def bind_result_def)
qed


theorem removeUnusedActions_reachable_witness:
  "valid_children dag_renamed \<and> valid_required dag_renamed [''c'']
   \<and> (\<exists>n \<in> set [''c'', ''d'']. index dag_renamed n = None)
   \<and> fails_with (removeUnusedActions dag_renamed [''c'', ''d'']) UNKNOWN_IDENTIFIER
   \<and> (\<exists>dag'. removeUnusedActions dag_renamed [''c''] = Inr dag'
         \<and> map (\<lambda>(p, n). (p, Node.result_name n, renaming_parent n)) (ActionsDAG.nodes dag')
             = [(1, ''a'', None), (2, ''b'', None), (3, ''c'', None)]
         \<and> ActionsDAG.nodes dag' =
             map (\<lambda>(p, n). (p, if \<exists>rp. renaming_parent n = Some rp \<and> rp \<notin> reachable dag_renamed [''c'']
                                then n\<lparr>renaming_parent := None\<rparr> else n))
               (filter (\<lambda>(p, n). p \<in> reachable dag_renamed [''c'']) (ActionsDAG.nodes dag_renamed))
         \<and> index dag' = (\<lambda>n. if n \<in> set [''c''] then index dag_renamed n else None))"
proof -
  have v: "valid_children dag_renamed" "valid_required dag_renamed [''c'']"
    by code_simp+
  have u: "\<exists>n \<in> set [''c'', ''d'']. index dag_renamed n = None"
    by code_simp
  have e: "case removeUnusedActions dag_renamed [''c''] of
             Inr dag' \<Rightarrow> map (\<lambda>(p, n). (p, Node.result_name n, renaming_parent n)) (ActionsDAG.nodes dag')
                          = [(1, ''a'', None), (2, ''b'', None), (3, ''c'', None)]
           | Inl x \<Rightarrow> False"
    by code_simp
  from removeUnusedActions_reachable[of "[''c'', ''d'']" dag_renamed] u
  have f: "fails_with (removeUnusedActions dag_renamed [''c'', ''d'']) UNKNOWN_IDENTIFIER"
    by blast
  from removeUnusedActions_reachable[of "[''c'']" dag_renamed] v
  obtain dag' where d: "removeUnusedActions dag_renamed [''c''] = Inr dag'"
    "ActionsDAG.nodes dag' =
             map (\<lambda>(p, n). (p, if \<exists>rp. renaming_parent n = Some rp \<and> rp \<notin> reachable dag_renamed [''c'']
                                then n\<lparr>renaming_parent := None\<rparr> else n))
               (filter (\<lambda>(p, n). p \<in> reachable dag_renamed [''c'']) (ActionsDAG.nodes dag_renamed))"
    "index dag' = (\<lambda>n. if n \<in> set [''c''] then index dag_renamed n else None)"
    by blast
  from e d(1) have m: "map (\<lambda>(p, n). (p, Node.result_name n, renaming_parent n)) (ActionsDAG.nodes dag')
             = [(1, ''a'', None), (2, ''b'', None), (3, ''c'', None)]"
    by simp
  show ?thesis
    by (intro conjI exI[of _ dag'] v u f d m)
qed

section \<open>The linearizer: slots and the slot limit\<close>

text \<open>
  No iteration of the main loop puts a position on the stack of free positions: the stack
  only loses its top. It is empty at the start, so it stays empty and every node takes a
  new slot.
\<close>

lemma linearize_step_free_positions:
  assumes "linearize_step ns ri (ds, rn, raj, fp, ex) = Inr (ds', rn', raj', fp', ex')"
  shows "fp' = tl fp \<and> num_columns ex' = (if fp = [] then Suc (num_columns ex) else num_columns ex)"
proof -
  have tp: "fst (snd (take_position fp ex)) = tl fp"
    "num_columns (snd (snd (take_position fp ex))) = (if fp = [] then Suc (num_columns ex) else num_columns ex)"
    by (auto simp: take_position_def split: list.splits)
  from assms have
    "fp' = fst (snd (take_position fp ex))" "num_columns ex' = num_columns (snd (snd (take_position fp ex)))"
    by (auto simp: linearize_step_def bind_result_def Let_def
             split: sum.splits option.splits if_splits prod.splits)
  with tp show ?thesis by simp
qed

lemma linearize_loop_free_positions:
  assumes "linearize_loop ns ri st = Inr st'" and "fst (snd (snd (snd st))) = []"
  shows "fst (snd (snd (snd st'))) = []"
  using assms
proof (induction ns ri st rule: linearize_loop.induct)
  case (1 ns ri st)
  from "1.prems"(1) have unfolded:
    "(if queues_empty st then Inr st
      else case linearize_step ns ri st of Inl e \<Rightarrow> Inl e | Inr st1 \<Rightarrow> linearize_loop ns ri st1) = Inr st'"
    by (subst (asm) linearize_loop.simps)
  show ?case
  proof (cases "queues_empty st")
    case True
    with unfolded "1.prems"(2) show ?thesis by simp
  next
    case False
    with unfolded obtain st1 where st1: "linearize_step ns ri st = Inr st1" "linearize_loop ns ri st1 = Inr st'"
      by (auto split: sum.splits)
    obtain ds rn raj fp ex where st: "st = (ds, rn, raj, fp, ex)" by (cases st) auto
    obtain ds1 rn1 raj1 fp1 ex1 where s1: "st1 = (ds1, rn1, raj1, fp1, ex1)" by (cases st1) auto
    from linearize_step_free_positions[OF st1(1)[unfolded st s1]] "1.prems"(2) st
    have "fp1 = []" by simp
    with "1.IH"[OF False st1(1) st1(2)] s1 show ?thesis by simp
  qed
qed

text \<open>
  Hence the number of slots of a program is the number of its inputs and actions: no
  slot is used twice.
\<close>

lemma linearize_step_counts:
  assumes "linearize_step ns ri (ds, rn, raj, fp, ex) = Inr (ds', rn', raj', fp', ex')"
  shows "length (required_columns ex') + length (actions ex') = Suc (length (required_columns ex) + length (actions ex))"
proof -
  have tp: "required_columns (snd (snd (take_position fp ex))) = required_columns ex"
    "actions (snd (snd (take_position fp ex))) = actions ex"
    by (auto simp: take_position_def split: list.splits)
  from assms have
    "length (required_columns ex') + length (actions ex')
       = Suc (length (required_columns (snd (snd (take_position fp ex))))
              + length (actions (snd (snd (take_position fp ex)))))"
    by (auto simp: linearize_step_def bind_result_def Let_def
             split: sum.splits option.splits if_splits prod.splits)
  with tp show ?thesis by simp
qed

lemma linearize_loop_fresh_slots:
  assumes "linearize_loop ns ri st = Inr st'"
    and "fst (snd (snd (snd st))) = []"
    and "num_columns (snd (snd (snd (snd st))))
           = length (required_columns (snd (snd (snd (snd st))))) + length (actions (snd (snd (snd (snd st)))))"
  shows "num_columns (snd (snd (snd (snd st'))))
           = length (required_columns (snd (snd (snd (snd st'))))) + length (actions (snd (snd (snd (snd st')))))"
  using assms
proof (induction ns ri st rule: linearize_loop.induct)
  case (1 ns ri st)
  from "1.prems"(1) have unfolded:
    "(if queues_empty st then Inr st
      else case linearize_step ns ri st of Inl e \<Rightarrow> Inl e | Inr st1 \<Rightarrow> linearize_loop ns ri st1) = Inr st'"
    by (subst (asm) linearize_loop.simps)
  show ?case
  proof (cases "queues_empty st")
    case True
    with unfolded "1.prems"(3) show ?thesis by simp
  next
    case False
    with unfolded obtain st1 where st1: "linearize_step ns ri st = Inr st1" "linearize_loop ns ri st1 = Inr st'"
      by (auto split: sum.splits)
    obtain ds rn raj fp ex where st: "st = (ds, rn, raj, fp, ex)" by (cases st) auto
    obtain ds1 rn1 raj1 fp1 ex1 where s1: "st1 = (ds1, rn1, raj1, fp1, ex1)" by (cases st1) auto
    from "1.prems"(2) st have fp: "fp = []" by simp
    from linearize_step_free_positions[OF st1(1)[unfolded st s1]] fp
    have a: "fp1 = []" "num_columns ex1 = Suc (num_columns ex)" by simp_all
    from linearize_step_counts[OF st1(1)[unfolded st s1]] "1.prems"(3) st a(2)
    have b: "num_columns ex1 = length (required_columns ex1) + length (actions ex1)" by simp
    from "1.IH"[OF False st1(1) st1(2)] a(1) b s1 show ?thesis by simp
  qed
qed

lemma buildExpressions_fresh_slots:
  assumes "buildExpressions dag = Inr (expressions, dag')"
  shows "num_columns expressions = length (required_columns expressions) + length (actions expressions)"
proof -
  let ?ns = "ActionsDAG.nodes dag"
  let ?numbered = "number_nodes ?ns (replicate (length ?ns) new_Data) Map.empty 0"
  from assms obtain ds where cc: "count_children (index dag) (snd ?numbered) ?ns (fst ?numbered) = Inr ds"
    by (auto simp: buildExpressions_def Let_def bind_result_def split: sum.splits)
  from assms cc obtain ready where rn: "initial_ready_nodes (snd ?numbered) ds ?ns = Inr ready"
    by (auto simp: buildExpressions_def Let_def bind_result_def split: sum.splits)
  from assms cc rn obtain st where
    lp: "linearize_loop ?ns (snd ?numbered) (ds, ready, [], [], new_ExpressionActions) = Inr st"
    by (auto simp: buildExpressions_def Let_def bind_result_def split: sum.splits)
  obtain ds' rn' raj' fp' ex' where st: "st = (ds', rn', raj', fp', ex')" by (cases st) auto
  from linearize_loop_fresh_slots[OF lp] st
  have "num_columns ex' = length (required_columns ex') + length (actions ex')"
    by (simp add: new_ExpressionActions_def)
  moreover from assms cc rn lp st have
    "num_columns expressions = num_columns ex'" "required_columns expressions = required_columns ex'"
    "actions expressions = actions ex'"
    by (auto simp: buildExpressions_def Let_def bind_result_def split: if_splits)
  ultimately show ?thesis by simp
qed


text \<open>
  C3. The arguments are tagged \<open>remove\<close> as specified, but the slot of a tagged
  argument is never pushed on the stack of free positions. In the chain \<open>a\<close>,
  \<open>b = negate(a)\<close>, \<open>c = negate(b)\<close> with the output \<open>c\<close>, the argument \<open>a\<close> of \<open>b\<close> is
  tagged, and \<open>c\<close>, which becomes ready later, still extends the slot count: it gets
  slot 2 and the program has three slots, where reuse of slot 0 would give two.
\<close>

theorem linearizer_never_reuses_slot:
  "num_columns chain_a_b_c = 3
   \<and> required_columns chain_a_b_c = [(''a'', Some Int32)]
   \<and> actions chain_a_b_c =
       [\<lparr>Action.node = 2, arguments = [\<lparr>pos = 0, remove = True\<rparr>], result_position = 1,
          is_used_in_result = False\<rparr>,
        \<lparr>Action.node = 3, arguments = [\<lparr>pos = 1, remove = True\<rparr>], result_position = 2,
          is_used_in_result = True\<rparr>]"
  by code_simp


text \<open>
  C6. With ten independent applications of a function and \<open>max_temporary_columns = 5\<close>,
  \<^verbatim>\<open>buildExpressions\<close> fails with TOO_MANY_TEMPORARY_COLUMNS, but the message lists no
  column name: the node list has been swapped into the program before \<^verbatim>\<open>dumpNames\<close> reads
  it.
\<close>

theorem too_many_temporary_columns_lists_no_name:
  "max_temporary_columns ten_functions = 5
   \<and> dumpNames ten_functions = ''x, f0, f1, f2, f3, f4, f5, f6, f7, f8, f9''
   \<and> (case buildExpressions ten_functions of
        Inl e \<Rightarrow> e = Exception TOO_MANY_TEMPORARY_COLUMNS ''Too many temporary columns: . Maximum: 5''
      | Inr built \<Rightarrow> False)"
  by code_simp


section \<open>The executor: array join and the result block\<close>

text \<open>
  The ARRAY_JOIN case of \<^verbatim>\<open>executeAction\<close>: when the argument slot holds, after constant
  materialization, an array column, every slot column and every input column is replaced
  by its replicate by the array's offsets, the argument slot being cleared first when it
  is to be removed; the result slot gets the flat element column and the element type;
  \<open>num_rows\<close> is the number of elements. A column that is not an array gives
  TYPE_MISMATCH.
\<close>

lemma executeAction_array_join:
  assumes n: "node_at ns (Action.node action) = Some n" "Node.type n = Type.ARRAY_JOIN"
    and front: "arguments action = front # rest" "pos front < length (columns ctx)"
    and key: "ColumnWithTypeAndName.column (columns ctx ! pos front) = Some key"
    and res: "result_position action < length (columns ctx)"
  shows "(\<forall>array. convertToFullColumnIfConst key \<noteq> ColumnArray array) \<longrightarrow>
           fails_with (executeAction ns action ctx dry_run) TYPE_MISMATCH"
    and "convertToFullColumnIfConst key = ColumnArray array \<and>
         ColumnWithTypeAndName.type (columns ctx ! pos front) = Some (DataTypeArray nested) \<longrightarrow>
           executeAction ns action ctx dry_run =
             Inr \<lparr>input_columns = map (replicate_cwt (getOffsets array)) (input_columns ctx),
                  columns =
                    (map (replicate_cwt (getOffsets array))
                       (if remove front then (columns ctx)[pos front := empty_cwt] else columns ctx))
                    [result_position action :=
                       (replicate_cwt (getOffsets array)
                          ((if remove front then (columns ctx)[pos front := empty_cwt] else columns ctx)
                             ! result_position action))
                       \<lparr>ColumnWithTypeAndName.column := Some (getDataPtr array),
                        ColumnWithTypeAndName.type := Some nested\<rparr>],
                  num_rows = length (concat array)\<rparr>"
proof -
  show "(\<forall>array. convertToFullColumnIfConst key \<noteq> ColumnArray array) \<longrightarrow>
           fails_with (executeAction ns action ctx dry_run) TYPE_MISMATCH"
    using n front key
    by (cases "convertToFullColumnIfConst key")
       (auto simp: executeAction_def Let_def fails_with_def)
  show "convertToFullColumnIfConst key = ColumnArray array \<and>
         ColumnWithTypeAndName.type (columns ctx ! pos front) = Some (DataTypeArray nested) \<longrightarrow>
           executeAction ns action ctx dry_run =
             Inr \<lparr>input_columns = map (replicate_cwt (getOffsets array)) (input_columns ctx),
                  columns =
                    (map (replicate_cwt (getOffsets array))
                       (if remove front then (columns ctx)[pos front := empty_cwt] else columns ctx))
                    [result_position action :=
                       (replicate_cwt (getOffsets array)
                          ((if remove front then (columns ctx)[pos front := empty_cwt] else columns ctx)
                             ! result_position action))
                       \<lparr>ColumnWithTypeAndName.column := Some (getDataPtr array),
                        ColumnWithTypeAndName.type := Some nested\<rparr>],
                  num_rows = length (concat array)\<rparr>"
    using n front key res
    by (auto simp: executeAction_def Let_def getDataPtr_def)
qed


text \<open>
  C4. On the scenario \<open>arr = [[1,2],[],[3]]\<close>, \<open>tag = ["x","y","z"]\<close>, required
  \<open>e\<close> and \<open>tag\<close>, the action leaves the slots \<open>tag = ["x","x","z"]\<close> and
  \<open>e = [1,2,3]\<close> and \<open>num_rows = 3\<close>, but the block that \<^verbatim>\<open>execute\<close> returns has
  \<open>e\<close> and, in the place of \<open>tag\<close>, the empty column left by the move of the input:
  \<open>tag\<close> is an input, not an action, and is never moved back.
\<close>

theorem array_join_loses_tag:
  "required_columns array_join_arr = [(''arr'', Some (DataTypeArray Int32)), (''tag'', Some (DataType ''String''))]
   \<and> getNamesAndTypesList (sample_block array_join_arr) = [(''tag'', Some (DataType ''String'')), (''e'', Some Int32)]
   \<and> (case execute_prepare array_join_arr block_arr_tag of
        Inr (block1, execution_context, inputs_to_remove) \<Rightarrow>
          (case execute_actions array_join_arr (actions array_join_arr) execution_context False of
             Inr ctx \<Rightarrow>
               columns ctx =
                 [empty_cwt,
                  \<lparr>ColumnWithTypeAndName.column = Some (ColumnVector [String ''x'', String ''x'', String ''z'']),
                   ColumnWithTypeAndName.type = Some (DataType ''String''), name = ''tag''\<rparr>,
                  \<lparr>ColumnWithTypeAndName.column = Some (ColumnVector [Int64 1, Int64 2, Int64 3]),
                   ColumnWithTypeAndName.type = Some Int32, name = []\<rparr>]
               \<and> num_rows ctx = 3
           | Inl e \<Rightarrow> False)
      | Inl e \<Rightarrow> False)
   \<and> (case execute array_join_arr block_arr_tag False of
        Inr block \<Rightarrow>
          data block =
            [empty_cwt,
             \<lparr>ColumnWithTypeAndName.column = Some (ColumnVector [Int64 1, Int64 2, Int64 3]),
              ColumnWithTypeAndName.type = Some Int32, name = ''e''\<rparr>]
          \<and> index_by_name block ''tag'' = Some 0 \<and> index_by_name block ''e'' = Some 1
      | Inl e \<Rightarrow> False)"
  by code_simp


text \<open>
  C1. The program of the single input \<open>x\<close> has the sample block \<open>x : Int32\<close>. Executed
  on a block with the column \<open>x\<close>, it moves the column into its slot, keeps the position
  because the sample block has \<open>x\<close>, and has no action that moves it back: the block is
  left with one empty column without name and type.
\<close>

theorem execute_loses_input_in_result:
  "required_columns identity_x = [(''x'', Some Int32)]
   \<and> actions identity_x = []
   \<and> getNamesAndTypesList (sample_block identity_x) = [(''x'', Some Int32)]
   \<and> getNamesAndTypesList block_x = [(''x'', Some Int32)]
   \<and> (case execute identity_x block_x False of
        Inr block \<Rightarrow> data block = [empty_cwt] \<and> getNamesAndTypesList block = [([], None)]
      | Inl e \<Rightarrow> False)"
  by code_simp

section \<open>Equality and hash of expression actions\<close>

lemma same_result_type_eq: "same_result_type x y \<longleftrightarrow> x = y"
  by (auto simp: same_result_type_def split: option.splits)

lemma same_function_base_names:
  "same_function_base x y \<Longrightarrow>
   map_option getName x = map_option getName y \<and> map_option getArgumentTypes x = map_option getArgumentTypes y"
  by (auto simp: same_function_base_def list.rel_eq split: option.splits)

lemma same_added_column_names:
  "same_added_column x y \<Longrightarrow> map_option column_getName x = map_option column_getName y"
  by (auto simp: same_added_column_def split: option.splits)

text \<open>
  Everything the hash reads besides the type of the action is compared by
  \<^verbatim>\<open>operator==\<close>, types and columns through their names: two equal actions that have the
  same type have the same hash. Here the equality of two types is taken to imply the
  equality of their names.
\<close>

lemma same_type_equal_actions_equal_hashes:
  assumes "ExpressionAction.type a = ExpressionAction.type b" and "ExpressionAction_equals a b"
  shows "ActionHash a = ActionHash b"
proof -
  from assms(2) have rt: "ExpressionAction.result_type a = ExpressionAction.result_type b"
    by (simp add: ExpressionAction_equals_def same_result_type_eq split: if_splits)
  from assms(2) have "same_function_base (ExpressionAction.function_base a) (ExpressionAction.function_base b)"
    by (simp add: ExpressionAction_equals_def split: if_splits)
  note fb = same_function_base_names[OF this]
  from assms(2) have "same_added_column (added_column a) (added_column b)"
    by (simp add: ExpressionAction_equals_def split: if_splits)
  note ac = same_added_column_names[OF this]
  from assms(2) have rest: "source_name a = source_name b"
    "ExpressionAction.result_name a = ExpressionAction.result_name b"
    "argument_names a = argument_names b" "projection a = projection b"
    "ExpressionAction.is_function_compiled a = ExpressionAction.is_function_compiled b"
    by (simp_all add: ExpressionAction_equals_def split: if_splits)
  have col: "(case added_column a of None \<Rightarrow> h | Some c \<Rightarrow> update_string (column_getName c) h)
           = (case added_column b of None \<Rightarrow> h | Some c \<Rightarrow> update_string (column_getName c) h)" for h
    using ac by (cases "added_column a"; cases "added_column b") auto
  have fn: "(case ExpressionAction.function_base a of None \<Rightarrow> h
             | Some base \<Rightarrow> fold (\<lambda>arg_type. update_string (type_getName arg_type)) (getArgumentTypes base)
                              (update_string (getName base) h))
          = (case ExpressionAction.function_base b of None \<Rightarrow> h
             | Some base \<Rightarrow> fold (\<lambda>arg_type. update_string (type_getName arg_type)) (getArgumentTypes base)
                              (update_string (getName base) h))" for h
    using fb by (cases "ExpressionAction.function_base a"; cases "ExpressionAction.function_base b") auto
  show ?thesis
    unfolding ActionHash_def Let_def assms(1) rt rest col fn ..
qed

text \<open>Two ADD_COLUMN actions whose added columns differ in their value only.\<close>

lemma same_type_equal_actions_example:
  "ExpressionAction.type add_one = ExpressionAction.type add_two \<and> ExpressionAction_equals add_one add_two
   \<and> add_one \<noteq> add_two \<and> ActionHash add_one = ActionHash add_two"
proof -
  have t: "ExpressionAction.type add_one = ExpressionAction.type add_two"
    by (simp add: add_one_def add_two_def)
  have e: "ExpressionAction_equals add_one add_two"
    by (simp add: ExpressionAction_equals_def add_one_def add_two_def same_result_type_def
        same_function_base_def same_added_column_def sameJoin_def)
  have n: "add_one \<noteq> add_two"
  proof
    assume "add_one = add_two"
    then have "added_column add_one = added_column add_two" by simp
    then show False by (simp add: add_one_def add_two_def)
  qed
  from same_type_equal_actions_equal_hashes[OF t e] t e n show ?thesis by simp
qed

text \<open>
  C8. \<^verbatim>\<open>operator==\<close> does not compare the type of the two actions, which \<^verbatim>\<open>ActionHash\<close>
  hashes first. The COPY_COLUMN action and the ARRAY_JOIN action with the same source
  name \<open>y\<close> and the same result name \<open>x\<close> are equal, and their hashes are different:
  equality of two actions does not imply equal hashes.
\<close>

theorem equal_actions_different_hashes:
  "ExpressionAction_equals copy_x_y array_join_x_y \<and> ActionHash copy_x_y \<noteq> ActionHash array_join_x_y"
proof
  show "ExpressionAction_equals copy_x_y array_join_x_y"
    by (simp add: ExpressionAction_equals_def copy_x_y_def array_join_x_y_def same_result_type_def
        same_function_base_def same_added_column_def sameJoin_def)
  show "ActionHash copy_x_y \<noteq> ActionHash array_join_x_y"
    by code_simp
qed

end
